theory Spec2Isabelle
  imports Complex_Main
begin

section \<open>NEC deck generator (tools/NEC/nec\_sd\_generator.py)\<close>

text \<open>
  A shallow embedding of the generator, read as the Python 3 script its first line says it
  is. Python integers are \<open>int\<close>. A Python float is a real number. Where a float is
  turned into an integer by \<open>int(...)\<close> (the segment count of a wire, the middle
  segment), every operation that leads to it rounds its exact result to the nearest
  binary64 value, ties to even, as the hardware does; the exponent range is not bounded
  there, so no operation overflows to infinity or underflows, except that the division
  of two ints raises OverflowError beyond the largest float, as Python's does. A float
  that only ends in a card keeps its exact real value. Exceptions are values of type
  \<open>error\<close>; a function that can raise returns \<open>error + 'a\<close>. The only module-level
  variable that is ever assigned is \<open>wire_number\<close>; it is threaded through every
  function that constructs wires as a value of type \<open>counter\<close>, and a function that raises
  returns the counter as it stands at the \<open>raise\<close>. The diagnostic \<open>print\<close> calls write
  to standard output only and are left out. A card is kept as the tuple of values handed to
  \<open>str.format\<close>, not as the rendered text. The classes that the script never
  instantiates (YAGI, Feedline, Balun) are not modelled. \<open>range(0, n)\<close> for an int
  \<open>n\<close> is the list \<open>[0..n - 1]\<close>.
\<close>

subsection \<open>Python values, exceptions and the wire counter\<close>

datatype error =
    ValueError
  | TypeError
  | ZeroDivisionError
  | IndexError
  | OverflowError
  | NotImplementedError

text \<open>A Python number as an object: \<open>is\<close> distinguishes an int from a float.\<close>

datatype pynum = PyInt int | PyFloat real

definition py_value :: "pynum \<Rightarrow> real" where
  "py_value v = (case v of PyInt i \<Rightarrow> of_int i | PyFloat r \<Rightarrow> r)"

text \<open>
  \<open>v is 0\<close>: identity with the (cached) int object \<open>0\<close>. A float is never that
  object, whatever its value.
\<close>

definition py_is_zero :: "pynum \<Rightarrow> bool" where
  "py_is_zero v = (case v of PyInt i \<Rightarrow> i = 0 | PyFloat r \<Rightarrow> False)"

text \<open>\<open>int(x)\<close> on a float truncates towards zero.\<close>

definition py_int :: "real \<Rightarrow> int" where
  "py_int r = (if 0 \<le> r then \<lfloor>r\<rfloor> else \<lceil>r\<rceil>)"

subsection \<open>Binary64 rounding\<close>

text \<open>The integer nearest to a real, the even one of the two when it lies half way.\<close>

definition rne :: "real \<Rightarrow> int" where
  "rne x =
     (if x - of_int \<lfloor>x\<rfloor> < 1 / 2 then \<lfloor>x\<rfloor>
      else if 1 / 2 < x - of_int \<lfloor>x\<rfloor> then \<lfloor>x\<rfloor> + 1
      else if even \<lfloor>x\<rfloor> then \<lfloor>x\<rfloor> else \<lfloor>x\<rfloor> + 1)"

text \<open>
  The nearest float with a significand of 53 bits: for \<open>2 ^ e \<le> |x| < 2 ^ (e + 1)\<close> the
  floats are the multiples of \<open>2 ^ (e - 52)\<close>.
\<close>

definition fl :: "real \<Rightarrow> real" where
  "fl x =
     (if x = 0 then 0
      else of_int (rne (x / 2 powr of_int (\<lfloor>log 2 \<bar>x\<bar>\<rfloor> - 52)))
           * 2 powr of_int (\<lfloor>log 2 \<bar>x\<bar>\<rfloor> - 52))"

text \<open>The float operations \<open>+\<close>, \<open>-\<close>, \<open>*\<close>, \<open>/\<close> and \<open>math.sqrt\<close>.\<close>

definition fadd :: "real \<Rightarrow> real \<Rightarrow> real" where
  "fadd a b = fl (a + b)"

definition fsub :: "real \<Rightarrow> real \<Rightarrow> real" where
  "fsub a b = fl (a - b)"

definition fmul :: "real \<Rightarrow> real \<Rightarrow> real" where
  "fmul a b = fl (a * b)"

definition fdiv :: "real \<Rightarrow> real \<Rightarrow> real" where
  "fdiv a b = fl (a / b)"

definition fsqrt :: "real \<Rightarrow> real" where
  "fsqrt a = fl (sqrt a)"

text \<open>\<open>a / b\<close> on floats, rounded; it raises when the divisor is zero.\<close>

definition py_fdiv :: "real \<Rightarrow> real \<Rightarrow> error + real" where
  "py_fdiv a b = (if b = 0 then Inl ZeroDivisionError else Inr (fdiv a b))"

text \<open>
  \<open>a / b\<close> on two ints is the float nearest to the exact quotient; it raises
  OverflowError when that is beyond the largest float. (A quotient too small for a
  normal float does not occur: the only divisor in the program is 2.)
\<close>

definition py_int_truediv :: "int \<Rightarrow> int \<Rightarrow> error + real" where
  "py_int_truediv a b =
     (if b = 0 then Inl ZeroDivisionError
      else if 2 ^ 1024 \<le> \<bar>fdiv (of_int a) (of_int b)\<bar> then Inl OverflowError
      else Inr (fdiv (of_int a) (of_int b)))"

text \<open>
  \<open>a / b\<close> on floats whose result only ends in a card: the exact quotient. It raises
  when the divisor is zero.
\<close>

definition py_truediv :: "real \<Rightarrow> real \<Rightarrow> error + real" where
  "py_truediv a b = (if b = 0 then Inl ZeroDivisionError else Inr (a / b))"

text \<open>\<open>range(0, stop)\<close>: an int stop gives the indices, a float stop raises TypeError.\<close>

definition py_range :: "pynum \<Rightarrow> error + int list" where
  "py_range stop = (case stop of PyInt n \<Rightarrow> Inr [0..n - 1] | PyFloat r \<Rightarrow> Inl TypeError)"

text \<open>\<open>xs[i]\<close> for \<open>i\<close> taken from a \<open>range(0, n)\<close>.\<close>

definition py_index :: "'a list \<Rightarrow> int \<Rightarrow> error + 'a" where
  "py_index xs i =
     (if 0 \<le> i \<and> i < int (length xs) then Inr (xs ! nat i)
      else if i < 0 \<and> - int (length xs) \<le> i then Inr (xs ! nat (int (length xs) + i))
      else Inl IndexError)"

type_synonym counter = int

type_synonym 'a py = "counter \<Rightarrow> (error + 'a) \<times> counter"

definition py_return :: "'a \<Rightarrow> 'a py" where
  "py_return x wn = (Inr x, wn)"

definition py_raise :: "error \<Rightarrow> 'a py" where
  "py_raise e wn = (Inl e, wn)"

definition py_lift :: "error + 'a \<Rightarrow> 'a py" where
  "py_lift r wn = (r, wn)"

definition py_bind :: "'a py \<Rightarrow> ('a \<Rightarrow> 'b py) \<Rightarrow> 'b py" where
  "py_bind m f wn =
     (case m wn of (Inl e, wn') \<Rightarrow> (Inl e, wn') | (Inr x, wn') \<Rightarrow> f x wn')"

subsection \<open>Module constants\<close>

definition speed_of_light :: real where
  "speed_of_light = 299792458"

definition min_frequency :: real where
  "min_frequency = 8000000"

definition aluminum_conductivity :: real where
  "aluminum_conductivity = 35000000"

definition copper_conductivity :: real where
  "copper_conductivity = 59600000"

subsection \<open>Cards\<close>

datatype comment =
    CM_TTFD real int real real real real
  | CM_LogPeriodic real real real real real

datatype card =
    GW int int real real real real real real real
  | GE int
  | LD4 int int int real real
  | LD5 int int int real
  | EX6 int int real real
  | EX0 int int real real
  | TL int int int int real real
  | GN int real real
  | EK
  | CP
  | CM comment
  | FR int real real
  | RP int int real real real real
  | EN

subsection \<open>TransmissionLine, Load, Source\<close>

text \<open>Each class keeps only the card built by its \<open>__init__\<close>.\<close>

definition TransmissionLine_init :: "int \<Rightarrow> int \<Rightarrow> int \<Rightarrow> int \<Rightarrow> bool \<Rightarrow> real \<Rightarrow> real \<Rightarrow> card" where
  "TransmissionLine_init tag1 segment1 tag2 segment2 crossed impedance len =
     TL tag1 segment1 tag2 segment2 (if crossed then impedance * (- 1) else impedance) len"

definition Load_init :: "int \<Rightarrow> int \<Rightarrow> int \<Rightarrow> real \<Rightarrow> real \<Rightarrow> card" where
  "Load_init tag start_segment end_segment impedance_real impedance_imag =
     LD4 tag start_segment end_segment impedance_real impedance_imag"

definition Source_init :: "int \<Rightarrow> int \<Rightarrow> real \<Rightarrow> real \<Rightarrow> bool \<Rightarrow> card" where
  "Source_init tag segment excitation_real excitation_imag current_source =
     (if current_source then
        (let excitation_real =
               (if excitation_real = 0 then excitation_real + 1 / 10 ^ 10 else excitation_real);
             excitation_imag =
               (if excitation_imag = 0 then excitation_imag + 1 / 10 ^ 10 else excitation_imag)
         in EX6 tag segment excitation_real excitation_imag)
      else EX0 tag segment excitation_real excitation_imag)"

subsection \<open>Wire\<close>

record wire =
  wire_number :: int
  segments :: int
  x1 :: real
  y1 :: real
  z1 :: real
  x2 :: real
  y2 :: real
  z2 :: real
  radius :: real

text \<open>
  The body of \<open>if segments is 0:\<close> in \<open>Wire.__init__\<close>, with the module variable
  \<open>min_frequency\<close> as a parameter. The literal \<open>0.05\<close> is the float nearest to 1/20.
\<close>

definition auto_segments :: "real \<Rightarrow> real \<Rightarrow> error + int" where
  "auto_segments min_freq wire_length =
     (case py_fdiv (fmul (fl 0.05) speed_of_light) min_freq of
        Inl e \<Rightarrow> Inl e
      | Inr segment_length \<Rightarrow>
          (case py_fdiv wire_length segment_length of
             Inl e \<Rightarrow> Inl e
           | Inr q \<Rightarrow>
               (let segments = py_int q
                in Inr (if segments mod 2 = 0 then segments + 1 else segments))))"

definition wire_length :: "real \<Rightarrow> real \<Rightarrow> real \<Rightarrow> real \<Rightarrow> real \<Rightarrow> real \<Rightarrow> real" where
  "wire_length ax ay az bx by bz =
     fsqrt (fadd (fadd (fmul (fsub bz az) (fsub bz az)) (fmul (fsub by ay) (fsub by ay)))
                 (fmul (fsub bx ax) (fsub bx ax)))"

definition Wire_init :: "real \<Rightarrow> real \<Rightarrow> real \<Rightarrow> real \<Rightarrow> real \<Rightarrow> real \<Rightarrow> real \<Rightarrow> int \<Rightarrow> wire py" where
  "Wire_init ax ay az bx by bz r segs wn =
     (let wn = wn + 1;
          len = wire_length ax ay az bx by bz
      in case (if segs = 0 then auto_segments min_frequency len else Inr segs) of
           Inl e \<Rightarrow> (Inl e, wn)
         | Inr segs \<Rightarrow>
             (Inr \<lparr>wire_number = wn, segments = segs, x1 = ax, y1 = ay, z1 = az,
                   x2 = bx, y2 = by, z2 = bz, radius = r\<rparr>, wn))"

definition get_mid_segment :: "wire \<Rightarrow> error + int" where
  "get_mid_segment w =
     (if segments w mod 2 = 0 then Inl ValueError
      else (case py_int_truediv (segments w) 2 of
              Inl e \<Rightarrow> Inl e
            | Inr half \<Rightarrow> Inr (1 + py_int half)))"

definition get_wire_number :: "wire \<Rightarrow> int" where
  "get_wire_number w = wire_number w"

definition translate :: "wire \<Rightarrow> real \<Rightarrow> real \<Rightarrow> real \<Rightarrow> wire" where
  "translate w x y z =
     w\<lparr>x1 := x1 w + x, y1 := y1 w + y, z1 := z1 w + z,
       x2 := x2 w + x, y2 := y2 w + y, z2 := z2 w + z\<rparr>"

definition repr_wire :: "wire \<Rightarrow> card" where
  "repr_wire w =
     GW (wire_number w) (segments w) (x1 w) (y1 w) (z1 w) (x2 w) (y2 w) (z2 w) (radius w)"

subsection \<open>Wire gauge and conductivity\<close>

definition get_mm_radius_from_awg :: "int \<Rightarrow> error + real" where
  "get_mm_radius_from_awg awg =
     (if awg < 0 \<or> awg > 36 then Inl ValueError
      else Inr (0.127 * (92 powr (of_int (36 - awg) / of_int 39))))"

definition create_wire_conductivity :: "int \<Rightarrow> int \<Rightarrow> int \<Rightarrow> real \<Rightarrow> card" where
  "create_wire_conductivity tag_number start_segment_number end_segment_number conductivity =
     LD5 tag_number start_segment_number end_segment_number conductivity"

subsection \<open>Loops that collect objects\<close>

text \<open>\<open>for x in xs: objs.append(f(x))\<close>, stopping at the first exception.\<close>

primrec py_for :: "'a list \<Rightarrow> ('a \<Rightarrow> 'b py) \<Rightarrow> 'b list py" where
  "py_for [] f = py_return []"
| "py_for (x # xs) f =
     py_bind (f x) (\<lambda>y. py_bind (py_for xs f) (\<lambda>ys. py_return (y # ys)))"

subsection \<open>Reflector\<close>

definition Reflector_init ::
  "real \<Rightarrow> real \<Rightarrow> real \<Rightarrow> int \<Rightarrow> int \<Rightarrow> real \<Rightarrow> real \<Rightarrow> real \<Rightarrow> real \<Rightarrow> wire list py" where
  "Reflector_init length_m spacing_m start_height_m num_wires awg angle
                  global_x global_y global_z =
     py_bind (py_lift (get_mm_radius_from_awg awg)) (\<lambda>r_mm.
       let radius = r_mm / 1000 in
       if num_wires = 0 then py_raise NotImplementedError
       else
         py_for [0..num_wires - 1] (\<lambda>reflector_wire.
           let ax = - length_m / 2;
               bx = length_m / 2;
               y = - of_int reflector_wire * cos (angle * pi / 180) * spacing_m;
               z = of_int reflector_wire * sin (angle * pi / 180) * spacing_m
           in Wire_init (ax + global_x) (y + global_y) (start_height_m - z + global_z)
                        (bx + global_x) (y + global_y) (start_height_m - z + global_z)
                        radius 0))"

definition repr_Reflector :: "wire list \<Rightarrow> card list" where
  "repr_Reflector reflector_wires = map repr_wire reflector_wires"

subsection \<open>TTFD\<close>

record ttfd =
  wire_radius_m :: real
  comment_string :: comment
  topleftwire :: wire
  topwire :: wire
  toprightwire :: wire
  middlewire :: wire
  bottomleftwire :: wire
  bottomwire :: wire
  bottomrightwire :: wire
  topload :: card
  bottomload :: card
  excitation :: card

text \<open>
  \<open>w1\<close> to \<open>w7\<close> are the wires in the order the constructor builds them: top left,
  top, top right, middle, bottom left, bottom, bottom right. Each is translated as soon
  as it is built. The two loads use the default impedance of \<open>Load\<close>, 100 + 0j.
\<close>

definition TTFD_init ::
  "int \<Rightarrow> real \<Rightarrow> real \<Rightarrow> real \<Rightarrow> real \<Rightarrow> real \<Rightarrow> real \<Rightarrow> real \<Rightarrow> real \<Rightarrow> real \<Rightarrow> real \<Rightarrow> ttfd py" where
  "TTFD_init wire_gauge height termination mid_width top_width wire_spacing
             global_x global_y global_z current_real current_imag =
     py_bind (py_lift (get_mm_radius_from_awg wire_gauge)) (\<lambda>r_mm.
     let r = r_mm / 1000;
         cs = CM_TTFD height wire_gauge termination mid_width top_width wire_spacing in
     py_bind (Wire_init (- mid_width / 2) 0 height
                        (- top_width / 2) 0 (wire_spacing + height) r 0) (\<lambda>w1.
     let w1 = translate w1 global_x global_y global_z in
     py_bind (Wire_init (- top_width / 2) 0 (wire_spacing + height)
                        (top_width / 2) 0 (wire_spacing + height) r 0) (\<lambda>w2.
     let w2 = translate w2 global_x global_y global_z in
     py_bind (Wire_init (mid_width / 2) 0 height
                        (top_width / 2) 0 (wire_spacing + height) r 0) (\<lambda>w3.
     let w3 = translate w3 global_x global_y global_z in
     py_bind (Wire_init (- mid_width / 2) 0 height
                        (mid_width / 2) 0 height r 0) (\<lambda>w4.
     let w4 = translate w4 global_x global_y global_z in
     py_bind (Wire_init (- mid_width / 2) 0 height
                        (- top_width / 2) 0 (- wire_spacing + height) r 0) (\<lambda>w5.
     let w5 = translate w5 global_x global_y global_z in
     py_bind (Wire_init (- top_width / 2) 0 (- wire_spacing + height)
                        (top_width / 2) 0 (- wire_spacing + height) r 0) (\<lambda>w6.
     let w6 = translate w6 global_x global_y global_z in
     py_bind (Wire_init (mid_width / 2) 0 height
                        (top_width / 2) 0 (- wire_spacing + height) r 0) (\<lambda>w7.
     let w7 = translate w7 global_x global_y global_z in
     py_bind (py_lift (get_mid_segment w2)) (\<lambda>mid_segment.
     let tl = Load_init (get_wire_number w2) mid_segment mid_segment 100 0 in
     py_bind (py_lift (get_mid_segment w6)) (\<lambda>mid_segment.
     let bl = Load_init (get_wire_number w6) mid_segment mid_segment 100 0 in
     py_bind (py_lift (get_mid_segment w4)) (\<lambda>mid_segment.
     py_return
       \<lparr>wire_radius_m = r, comment_string = cs,
        topleftwire = w1, topwire = w2, toprightwire = w3, middlewire = w4,
        bottomleftwire = w5, bottomwire = w6, bottomrightwire = w7,
        topload = tl, bottomload = bl,
        excitation = Source_init (get_wire_number w4) mid_segment
                       current_real current_imag True\<rparr>)))))))))))"

subsection \<open>LogPeriodic\<close>

record logperiodic =
  lp_drivens :: "wire list"
  lp_excitation :: card
  lp_transmissionlines :: "card list"
  lp_comment_string :: comment

text \<open>
  The nine driven elements appended after the apex element: total length, position along
  the boom and segment count, as the literals of the source give them.
\<close>

definition lp_table :: "(real \<times> real \<times> int) list" where
  "lp_table =
     [(6.70, 0.725, 15), (7.57, 1.585, 17), (8.46, 2.59, 19), (9.49, 3.765, 21),
      (10.55, 5.165, 23), (11.87, 6.68, 25), (13.37, 8.385, 27), (15.38, 10.325, 29),
      (15.40, 11.63, 31)]"

text \<open>
  The loop over \<open>enumerate(self.drivens)\<close> that skips index 0: one crossed line
  between each element and the one before it.
\<close>

fun lp_lines :: "wire \<Rightarrow> wire list \<Rightarrow> error + card list" where
  "lp_lines prev [] = Inr []"
| "lp_lines prev (driven # rest) =
     (case get_mid_segment driven of
        Inl e \<Rightarrow> Inl e
      | Inr mid_segment \<Rightarrow>
          (case get_mid_segment prev of
             Inl e \<Rightarrow> Inl e
           | Inr prev_mid_segment \<Rightarrow>
               (case lp_lines driven rest of
                  Inl e \<Rightarrow> Inl e
                | Inr tls \<Rightarrow>
                    Inr (TransmissionLine_init (get_wire_number prev) prev_mid_segment
                           (get_wire_number driven) mid_segment True 50 0 # tls))))"

definition LogPeriodic_init ::
  "real \<Rightarrow> real \<Rightarrow> real \<Rightarrow> real \<Rightarrow> real \<Rightarrow> real \<Rightarrow> logperiodic py" where
  "LogPeriodic_init height global_x global_y global_z current_real current_imag =
     (let r = 0.01 in
      py_bind (Wire_init (- 6.04 / 2) 0 height (6.04 / 2) 0 height r 13) (\<lambda>d0.
      py_bind (py_lift (get_mid_segment d0)) (\<lambda>mid_segment.
      let ex = Source_init (get_wire_number d0) mid_segment current_real current_imag True in
      py_bind (py_for lp_table (\<lambda>(len, y, segs).
                 Wire_init (- len / 2) y height (len / 2) y height r segs)) (\<lambda>ds.
      py_bind (py_lift (lp_lines d0 ds)) (\<lambda>tls.
      py_return
        \<lparr>lp_drivens = d0 # ds, lp_excitation = ex, lp_transmissionlines = tls,
         lp_comment_string = CM_LogPeriodic height 0 ((180 / pi) * 0) 0 0\<rparr>)))))"

subsection \<open>Antenna objects and their card sections\<close>

datatype antenna = A_TTFD ttfd | A_LogPeriodic logperiodic

definition repr_geometry :: "antenna \<Rightarrow> card list" where
  "repr_geometry a =
     (case a of
        A_TTFD t \<Rightarrow>
          map repr_wire [topleftwire t, topwire t, toprightwire t, middlewire t,
                         bottomleftwire t, bottomwire t, bottomrightwire t]
      | A_LogPeriodic l \<Rightarrow> map repr_wire (lp_drivens l))"

definition repr_loads :: "antenna \<Rightarrow> card list" where
  "repr_loads a =
     (case a of A_TTFD t \<Rightarrow> [topload t, bottomload t] | A_LogPeriodic l \<Rightarrow> [])"

definition repr_excitations :: "antenna \<Rightarrow> card list" where
  "repr_excitations a =
     (case a of A_TTFD t \<Rightarrow> [excitation t] | A_LogPeriodic l \<Rightarrow> [lp_excitation l])"

definition repr_transmissionlines :: "antenna \<Rightarrow> card list" where
  "repr_transmissionlines a =
     (case a of A_TTFD t \<Rightarrow> [] | A_LogPeriodic l \<Rightarrow> lp_transmissionlines l)"

definition repr_comment_string :: "antenna \<Rightarrow> card list" where
  "repr_comment_string a =
     (case a of
        A_TTFD t \<Rightarrow> [CM (comment_string t)]
      | A_LogPeriodic l \<Rightarrow> [CM (lp_comment_string l)])"

subsection \<open>Array assembly\<close>

definition create_main_array ::
  "int \<Rightarrow> real \<Rightarrow> real list \<Rightarrow> real list \<Rightarrow> bool \<Rightarrow> antenna list py" where
  "create_main_array num_antennas antenna_spacing_m antenna_magnitudes antenna_phases
                     log_periodics =
     (if int (length antenna_magnitudes) \<noteq> num_antennas then py_raise ValueError
      else if int (length antenna_phases) \<noteq> num_antennas then py_raise ValueError
      else
        (let array_length_m = of_int (num_antennas - 1) * antenna_spacing_m in
         py_for [0..num_antennas - 1] (\<lambda>antenna.
           py_bind (py_lift (py_index antenna_phases antenna)) (\<lambda>phase.
           py_bind (py_lift (py_index antenna_magnitudes antenna)) (\<lambda>magnitude.
           let real_cur = magnitude * cos (phase * pi / 180);
               imag_cur = magnitude * sin (phase * pi / 180);
               x_position = of_int antenna * antenna_spacing_m - array_length_m / 2
           in if log_periodics then
                py_bind (LogPeriodic_init 15 x_position 0 0 real_cur imag_cur)
                  (\<lambda>l. py_return (A_LogPeriodic l))
              else
                py_bind (TTFD_init 13 10 100 12 8 1.5 x_position 0 0 real_cur imag_cur)
                  (\<lambda>t. py_return (A_TTFD t)))))))"

definition create_int_array ::
  "int \<Rightarrow> real \<Rightarrow> real \<Rightarrow> real \<Rightarrow> real \<Rightarrow> real list \<Rightarrow> real list \<Rightarrow> bool \<Rightarrow> antenna list py" where
  "create_int_array num_antennas antenna_spacing_m int_x_spacing_m int_y_spacing_m
                    int_z_spacing_m antenna_magnitudes antenna_phases log_periodics =
     (if int (length antenna_magnitudes) \<noteq> num_antennas then py_raise ValueError
      else if int (length antenna_phases) \<noteq> num_antennas then py_raise ValueError
      else
        (let array_length_m = of_int (num_antennas - 1) * antenna_spacing_m in
         py_for [0..num_antennas - 1] (\<lambda>antenna.
           py_bind (py_lift (py_index antenna_phases antenna)) (\<lambda>phase.
           py_bind (py_lift (py_index antenna_magnitudes antenna)) (\<lambda>magnitude.
           let real_cur = magnitude * cos (phase * pi / 180);
               imag_cur = magnitude * sin (phase * pi / 180);
               x_position = of_int antenna * antenna_spacing_m - array_length_m / 2;
               global_x_position = x_position + int_x_spacing_m
           in if log_periodics then
                py_bind (LogPeriodic_init 15 global_x_position int_y_spacing_m
                           int_z_spacing_m real_cur imag_cur)
                  (\<lambda>l. py_return (A_LogPeriodic l))
              else
                py_bind (TTFD_init 13 10 100 12 8 1.5 global_x_position int_y_spacing_m
                           int_z_spacing_m real_cur imag_cur)
                  (\<lambda>t. py_return (A_TTFD t)))))))"

subsection \<open>Beam steering\<close>

definition calculate_angle_from_beam :: "real \<Rightarrow> real \<Rightarrow> real \<Rightarrow> real" where
  "calculate_angle_from_beam beam_number beam_separation number_of_beams =
     (beam_number - number_of_beams / 2 + 0.5) * beam_separation"

definition calculate_phase_from_beam :: "real \<Rightarrow> real \<Rightarrow> real \<Rightarrow> error + real" where
  "calculate_phase_from_beam beam_number frequency_hz antenna_spacing_m =
     (case py_truediv speed_of_light frequency_hz of
        Inl e \<Rightarrow> Inl e
      | Inr wavelength_m \<Rightarrow>
          (let beam_azimuth = calculate_angle_from_beam beam_number 3.24 16
           in py_truediv (360 * antenna_spacing_m * sin (beam_azimuth * pi / 180))
                wavelength_m))"

definition calculate_parabolic_phase :: "real \<Rightarrow> real \<Rightarrow> int \<Rightarrow> error + real list" where
  "calculate_parabolic_phase frequency_hz antenna_spacing_m num_antennas =
     Inl NotImplementedError"

definition calculate_circular_phase :: "real \<Rightarrow> real \<Rightarrow> int \<Rightarrow> error + real list" where
  "calculate_circular_phase frequency_hz antenna_spacing_m num_antennas =
     Inl NotImplementedError"

subsection \<open>Broadened beam\<close>

text \<open>A loop over pure, fallible steps.\<close>

primrec err_for :: "'a list \<Rightarrow> ('a \<Rightarrow> error + 'b) \<Rightarrow> error + 'b list" where
  "err_for [] f = Inr []"
| "err_for (x # xs) f =
     (case f x of
        Inl e \<Rightarrow> Inl e
      | Inr y \<Rightarrow> (case err_for xs f of Inl e \<Rightarrow> Inl e | Inr ys \<Rightarrow> Inr (y # ys)))"

text \<open>
  One pass of the first loop: the wavelength and the azimuth of sub-array \<open>m\<close>.
  \<open>math.acos\<close> raises ValueError outside \<open>[-1, 1]\<close>.
\<close>

definition sub_array_azimuth ::
  "real \<Rightarrow> real \<Rightarrow> int \<Rightarrow> int \<Rightarrow> int \<Rightarrow> error + real \<times> real" where
  "sub_array_azimuth frequency_hz antenna_spacing_m num_antennas num_sub_arrays m =
     (case py_truediv speed_of_light frequency_hz of
        Inl e \<Rightarrow> Inl e
      | Inr wavelength_m \<Rightarrow>
          (case py_truediv (of_int (2 * m + 1) * wavelength_m * of_int num_sub_arrays)
                  (of_int (2 * num_antennas) * antenna_spacing_m) of
             Inl e \<Rightarrow> Inl e
           | Inr acos_arg \<Rightarrow>
               if acos_arg < - 1 \<or> 1 < acos_arg then Inl ValueError
               else Inr (wavelength_m, arccos acos_arg - pi / 2)))"

text \<open>The inner loop: each element adds \<open>temp_phase\<close> to the phase before it.\<close>

fun phase_ramp :: "real \<Rightarrow> real \<Rightarrow> int list \<Rightarrow> real list" where
  "phase_ramp temp_phase prev_phase [] = []"
| "phase_ramp temp_phase prev_phase (n # ns) =
     (temp_phase + prev_phase) # phase_ramp temp_phase (temp_phase + prev_phase) ns"

definition sub_array_phases ::
  "real \<Rightarrow> (real \<times> real) list \<Rightarrow> real \<Rightarrow> int \<Rightarrow> error + real list" where
  "sub_array_phases antenna_spacing_m sub_array_azimuths elements_per_sub_array m =
     (case py_index sub_array_azimuths m of
        Inl e \<Rightarrow> Inl e
      | Inr (wavelength_m, azimuth) \<Rightarrow>
          (case py_truediv (360 * antenna_spacing_m * sin azimuth) wavelength_m of
             Inl e \<Rightarrow> Inl e
           | Inr temp_phase \<Rightarrow>
               (case py_range (PyFloat elements_per_sub_array) of
                  Inl e \<Rightarrow> Inl e
                | Inr ns \<Rightarrow> Inr (phase_ramp temp_phase 0 ns))))"

text \<open>
  \<open>num_sub_arrays / 2\<close> and \<open>num_antennas / num_sub_arrays\<close> are true divisions:
  their results are floats, and they are what is handed to \<open>range\<close>.
\<close>

definition calculate_broadened_phase :: "real \<Rightarrow> real \<Rightarrow> int \<Rightarrow> int \<Rightarrow> error + real list" where
  "calculate_broadened_phase frequency_hz antenna_spacing_m num_antennas num_sub_arrays =
     (case py_range (PyFloat (of_int num_sub_arrays / 2)) of
        Inl e \<Rightarrow> Inl e
      | Inr ms \<Rightarrow>
          (case err_for ms (sub_array_azimuth frequency_hz antenna_spacing_m
                              num_antennas num_sub_arrays) of
             Inl e \<Rightarrow> Inl e
           | Inr sub_array_azimuths \<Rightarrow>
               (case py_truediv (of_int num_antennas) (of_int num_sub_arrays) of
                  Inl e \<Rightarrow> Inl e
                | Inr elements_per_sub_array \<Rightarrow>
                    (case py_range (PyFloat (of_int num_sub_arrays / 2)) of
                       Inl e \<Rightarrow> Inl e
                     | Inr ms' \<Rightarrow>
                         (case err_for ms' (sub_array_phases antenna_spacing_m
                                 sub_array_azimuths elements_per_sub_array) of
                            Inl e \<Rightarrow> Inl e
                          | Inr blocks \<Rightarrow>
                              (let element_phases = concat blocks
                               in Inr (element_phases @ rev element_phases)))))))"

subsection \<open>Control cards\<close>

definition end_geometry :: "int \<Rightarrow> card option" where
  "end_geometry ground_plane_value =
     (if ground_plane_value \<noteq> 0 then Some (GE ground_plane_value) else None)"

definition frequency_card :: "int \<Rightarrow> real \<Rightarrow> real \<Rightarrow> card" where
  "frequency_card num_freq_steps start_frequency freq_step_size =
     FR num_freq_steps start_frequency freq_step_size"

definition radiation_pattern_card :: "real \<Rightarrow> real \<Rightarrow> int \<Rightarrow> real \<Rightarrow> real \<Rightarrow> int \<Rightarrow> card" where
  "radiation_pattern_card theta_start theta_increment theta_steps
                          phi_start phi_increment phi_steps =
     RP theta_steps phi_steps theta_start phi_start theta_increment phi_increment"

definition ground_card :: "int \<Rightarrow> real \<Rightarrow> real \<Rightarrow> card" where
  "ground_card ground_type epse conductivity = GN ground_type epse conductivity"

definition extended_kernel_card :: card where
  "extended_kernel_card = EK"

definition end_of_run_card :: card where
  "end_of_run_card = EN"

definition max_coupling_card :: card where
  "max_coupling_card = CP"

subsection \<open>The script: arguments, phase set-up and deck\<close>

text \<open>
  The parsed arguments that the script reads. \<open>beam\<close> is the int \<open>0\<close> when the option
  is absent (the default is used as it is) and a float when it is given (\<open>type=float\<close>).
  \<open>frequency\<close> is taken at its float default.
\<close>

record args =
  antennas :: int
  int_antennas :: int
  parabolic_phase :: bool
  circular_phase :: bool
  broadened_beam :: bool
  beam :: pynum
  frequency :: real
  without_fence :: bool
  antenna_spacing :: real
  int_x_spacing :: real
  int_y_spacing :: real
  int_z_spacing :: real
  log_periodic :: bool

text \<open>\<open>if args.beam is not 0: rel_phase = calculate_phase_from_beam(...) else: rel_phase = 0\<close>\<close>

definition beam_dispatch :: "args \<Rightarrow> error + real" where
  "beam_dispatch a =
     (if \<not> py_is_zero (beam a) then
        calculate_phase_from_beam (py_value (beam a)) (frequency a * 1000000)
          (antenna_spacing a)
      else Inr 0)"

text \<open>
  The four lists built before the output file is opened: main magnitudes, main phases,
  interferometer magnitudes, interferometer phases.
\<close>

definition phase_lists ::
  "args \<Rightarrow> real \<Rightarrow> error + real list \<times> real list \<times> real list \<times> real list" where
  "phase_lists a rel_phase =
     (if circular_phase a then
        (case calculate_circular_phase (frequency a * 1000000) (antenna_spacing a)
                (antennas a) of
           Inl e \<Rightarrow> Inl e
         | Inr aph \<Rightarrow>
             (case calculate_circular_phase (frequency a * 1000000) (antenna_spacing a)
                     (int_antennas a) of
                Inl e \<Rightarrow> Inl e
              | Inr iph \<Rightarrow> Inr ([], aph, [], iph)))
      else if parabolic_phase a then
        (case calculate_parabolic_phase (frequency a * 1000000) (antenna_spacing a)
                (antennas a) of
           Inl e \<Rightarrow> Inl e
         | Inr aph \<Rightarrow>
             (case calculate_parabolic_phase (frequency a * 1000000) (antenna_spacing a)
                     (int_antennas a) of
                Inl e \<Rightarrow> Inl e
              | Inr iph \<Rightarrow> Inr ([], aph, [], iph)))
      else if broadened_beam a then
        (case calculate_broadened_phase (frequency a * 1000000) (antenna_spacing a)
                (antennas a) 4 of
           Inl e \<Rightarrow> Inl e
         | Inr aph \<Rightarrow>
             (case calculate_broadened_phase (frequency a * 1000000) (antenna_spacing a)
                     (int_antennas a) 2 of
                Inl e \<Rightarrow> Inl e
              | Inr iph \<Rightarrow>
                  Inr (map (\<lambda>m_ant. 1) [0..antennas a - 1], aph,
                       map (\<lambda>i_ant. 0) [0..int_antennas a - 1], iph)))
      else
        Inr (map (\<lambda>m_ant. 1) [0..antennas a - 1],
             map (\<lambda>m_ant. rel_phase * of_int m_ant) [0..antennas a - 1],
             map (\<lambda>i_ant. 0) [0..int_antennas a - 1],
             map (\<lambda>i_ant. rel_phase * of_int i_ant) [0..int_antennas a - 1]))"

text \<open>Reading the module variable \<open>wire_number\<close>.\<close>

definition py_get :: "counter py" where
  "py_get wn = (Inr wn, wn)"

text \<open>
  \<open>for wire in range(0, wire_number): f.write(create_wire_conductivity(wire, ...))\<close>
\<close>

definition conductivity_cards :: "bool \<Rightarrow> int \<Rightarrow> card list" where
  "conductivity_cards log_periodics wn =
     map (\<lambda>wire.
            if log_periodics then create_wire_conductivity wire 0 0 aluminum_conductivity
            else create_wire_conductivity wire 0 0 copper_conductivity)
         [0..wn - 1]"

text \<open>The body of \<open>with open(...) as f\<close>: the cards in the order they are written.\<close>

definition write_deck ::
  "args \<Rightarrow> real list \<Rightarrow> real list \<Rightarrow> real list \<Rightarrow> real list \<Rightarrow> card list py" where
  "write_deck a antenna_magnitudes antenna_phases int_antenna_magnitudes int_antenna_phases =
     py_bind (create_main_array (antennas a) (antenna_spacing a) antenna_magnitudes
                antenna_phases (log_periodic a)) (\<lambda>main_antenna_objects.
     py_bind (if int_antennas a > 0 then
                create_int_array (int_antennas a) (antenna_spacing a) (int_x_spacing a)
                  (int_y_spacing a) (int_z_spacing a) int_antenna_magnitudes
                  int_antenna_phases (log_periodic a)
              else py_return []) (\<lambda>int_antenna_objects.
     py_bind (if \<not> without_fence a then
                py_bind (Reflector_init (of_int (antennas a + 1) * antenna_spacing a) 0.707
                           15 21 13 45 0 0 0) (\<lambda>fence.
                py_bind (if int_antennas a > 0 then
                           Reflector_init (of_int (int_antennas a + 1) * antenna_spacing a)
                             0.707 15 21 13 45 (int_x_spacing a) (int_y_spacing a)
                             (int_z_spacing a)
                         else py_return []) (\<lambda>int_fence.
                py_return (repr_Reflector fence @ repr_Reflector int_fence)))
              else py_return []) (\<lambda>fence_cards.
     py_bind (py_lift (case end_geometry 1 of None \<Rightarrow> Inl TypeError | Some c \<Rightarrow> Inr c))
       (\<lambda>ge.
     py_bind py_get (\<lambda>wn.
     py_return
       (concat (map repr_geometry main_antenna_objects)
        @ concat (map repr_geometry int_antenna_objects)
        @ fence_cards
        @ [ge]
        @ conductivity_cards (log_periodic a) wn
        @ concat (map repr_loads main_antenna_objects)
        @ concat (map repr_loads int_antenna_objects)
        @ [ground_card 2 13 0.005, extended_kernel_card, max_coupling_card]
        @ concat (map (\<lambda>m_ant. repr_excitations m_ant @ repr_transmissionlines m_ant
                                @ repr_comment_string m_ant) main_antenna_objects)
        @ concat (map (\<lambda>i_ant. repr_excitations i_ant @ repr_transmissionlines i_ant)
                    int_antenna_objects)
        @ [frequency_card 1 (frequency a) 0.5, radiation_pattern_card 0 1 90 0 1 361,
           end_of_run_card]))))))"

definition main :: "args \<Rightarrow> card list py" where
  "main a =
     py_bind (py_lift (beam_dispatch a)) (\<lambda>rel_phase.
     py_bind (py_lift (phase_lists a rel_phase))
       (\<lambda>(antenna_magnitudes, antenna_phases, int_antenna_magnitudes, int_antenna_phases).
     write_deck a antenna_magnitudes antenna_phases int_antenna_magnitudes
       int_antenna_phases))"

text \<open>A run of the script: the module is loaded, so \<open>wire_number\<close> starts at 0.\<close>

definition run :: "args \<Rightarrow> (error + card list) \<times> counter" where
  "run a = main a 0"

text \<open>Reading a deck: the wire identifiers of its GW cards and the tags of its LD 5 cards.\<close>

fun gw_ids :: "card list \<Rightarrow> int list" where
  "gw_ids [] = []"
| "gw_ids (GW n s ax ay az bx by bz r # cs) = n # gw_ids cs"
| "gw_ids (c # cs) = gw_ids cs"

fun ld5_tags :: "card list \<Rightarrow> int list" where
  "ld5_tags [] = []"
| "ld5_tags (LD5 t s e c # cs) = t # ld5_tags cs"
| "ld5_tags (c # cs) = ld5_tags cs"

text \<open>The argparse defaults (no option given on the command line).\<close>

definition default_args :: args where
  "default_args =
     \<lparr>antennas = 16, int_antennas = 4, parabolic_phase = False, circular_phase = False,
      broadened_beam = False, beam = PyInt 0, frequency = 10.5, without_fence = False,
      antenna_spacing = 15.24, int_x_spacing = 0, int_y_spacing = - 100,
      int_z_spacing = 0, log_periodic = False\<rparr>"

text \<open>A straight-line sequence of \<open>Wire(...)\<close> calls, one per argument tuple.\<close>

type_synonym wire_args = "real \<times> real \<times> real \<times> real \<times> real \<times> real \<times> real \<times> int"

definition construct_wires :: "wire_args list \<Rightarrow> wire list py" where
  "construct_wires ws =
     py_for ws (\<lambda>(ax, ay, az, bx, by, bz, r, segs). Wire_init ax ay az bx by bz r segs)"

subsection \<open>Notions used to state facts about a run\<close>

text \<open>A list of cards with no GW card and no LD 5 card.\<close>

definition no_ids :: "card list \<Rightarrow> bool" where
  "no_ids cs \<longleftrightarrow> gw_ids cs = [] \<and> ld5_tags cs = []"

text \<open>
  An antenna object built when the counter was \<open>wn\<close> out of \<open>c\<close> wires: its geometry
  is the GW cards of the next \<open>c\<close> identifiers, and none of its other sections has a GW
  or an LD 5 card.
\<close>

definition antenna_ok :: "int \<Rightarrow> int \<Rightarrow> antenna \<Rightarrow> bool" where
  "antenna_ok wn c a \<longleftrightarrow>
     gw_ids (repr_geometry a) = [wn + 1..wn + c] \<and> ld5_tags (repr_geometry a) = []
     \<and> no_ids (repr_loads a) \<and> no_ids (repr_excitations a)
     \<and> no_ids (repr_transmissionlines a) \<and> no_ids (repr_comment_string a)"

text \<open>The same for antenna objects built one after the other.\<close>

fun antennas_ok :: "int \<Rightarrow> int \<Rightarrow> antenna list \<Rightarrow> bool" where
  "antennas_ok wn c [] = True"
| "antennas_ok wn c (a # as) = (antenna_ok wn c a \<and> antennas_ok (wn + c) c as)"

text \<open>
  The number of wires of a run with direct phases: 7 per TTFD or 10 per log-periodic
  antenna, and 21 per reflector fence.
\<close>

definition wire_total :: "args \<Rightarrow> int" where
  "wire_total a =
     (if log_periodic a then 10 else 7) * antennas a
     + (if 0 < int_antennas a then (if log_periodic a then 10 else 7) * int_antennas a else 0)
     + (if without_fence a then 0 else 21 + (if 0 < int_antennas a then 21 else 0))"

section \<open>Auxiliary facts\<close>

subsection \<open>Rounding\<close>

lemma rne_of_int [simp]: "rne (of_int k) = k"
  by (simp add: rne_def)

lemma rne_ge_floor: "\<lfloor>x\<rfloor> \<le> rne x"
  by (simp add: rne_def)

lemma rne_le_floor1: "rne x \<le> \<lfloor>x\<rfloor> + 1"
  by (simp add: rne_def)

lemma rne_mono:
  assumes "x \<le> y"
  shows "rne x \<le> rne y"
proof (cases "\<lfloor>x\<rfloor> = \<lfloor>y\<rfloor>")
  case True
  have "x - of_int \<lfloor>y\<rfloor> \<le> y - of_int \<lfloor>y\<rfloor>"
    using assms by simp
  then show ?thesis
    unfolding rne_def True by (auto split: if_splits)
next
  case False
  have "\<lfloor>x\<rfloor> \<le> \<lfloor>y\<rfloor>"
    using assms by (rule floor_mono)
  then have "\<lfloor>x\<rfloor> + 1 \<le> \<lfloor>y\<rfloor>"
    using False by simp
  then show ?thesis
    using rne_le_floor1 [of x] rne_ge_floor [of y] by linarith
qed

lemma rne_near:
  assumes "of_int m - 1 / 2 < x" and "x < of_int m + 1 / 2"
  shows "rne x = m"
proof (cases "of_int m \<le> x")
  case True
  then have "\<lfloor>x\<rfloor> = m"
    using assms by (intro floor_unique) simp_all
  then show ?thesis
    using assms by (simp add: rne_def)
next
  case False
  then have "\<lfloor>x\<rfloor> = m - 1"
    using assms by (intro floor_unique) simp_all
  then show ?thesis
    using assms by (simp add: rne_def)
qed

lemma exponent_bounds:
  assumes "x \<noteq> 0"
  shows "2 powr of_int \<lfloor>log 2 \<bar>x\<bar>\<rfloor> \<le> \<bar>x\<bar>"
    and "\<bar>x\<bar> < 2 powr (of_int \<lfloor>log 2 \<bar>x\<bar>\<rfloor> + 1)"
  using floor_log_eq_powr_iff [of "\<bar>x\<bar>" 2 "\<lfloor>log 2 \<bar>x\<bar>\<rfloor>"] assms by simp_all

lemma exponent_eqI:
  assumes "2 powr of_int k \<le> \<bar>x\<bar>" and "\<bar>x\<bar> < 2 powr (of_int k + 1)"
  shows "\<lfloor>log 2 \<bar>x\<bar>\<rfloor> = k"
proof -
  have "(0::real) < 2 powr of_int k"
    by simp
  then have "0 < \<bar>x\<bar>"
    using assms(1) by linarith
  then show ?thesis
    using floor_log_eq_powr_iff [of "\<bar>x\<bar>" 2 k] assms by simp
qed

lemma scaled_bounds:
  assumes "0 < x"
  shows "2 ^ 52 \<le> x / 2 powr of_int (\<lfloor>log 2 \<bar>x\<bar>\<rfloor> - 52)"
    and "x / 2 powr of_int (\<lfloor>log 2 \<bar>x\<bar>\<rfloor> - 52) < 2 ^ 53"
proof -
  define e where "e = \<lfloor>log 2 \<bar>x\<bar>\<rfloor>"
  have b: "2 powr of_int e \<le> x" "x < 2 powr (of_int e + 1)"
    using exponent_bounds [of x] assms unfolding e_def by simp_all
  have u: "(2::real) powr of_int (e - 52) = 2 powr of_int e / 2 ^ 52"
    by (simp add: powr_diff)
  have p: "(0::real) < 2 powr of_int e"
    by simp
  have "(2::real) powr (of_int e + 1) = 2 powr of_int e * 2"
    by (simp add: powr_add)
  then have b2: "x < 2 powr of_int e * 2"
    using b(2) by simp
  show "2 ^ 52 \<le> x / 2 powr of_int (\<lfloor>log 2 \<bar>x\<bar>\<rfloor> - 52)"
    unfolding e_def [symmetric] u using b(1) p by (simp add: field_simps)
  show "x / 2 powr of_int (\<lfloor>log 2 \<bar>x\<bar>\<rfloor> - 52) < 2 ^ 53"
    unfolding e_def [symmetric] u using b2 p by (simp add: field_simps)
qed

lemma fl_zero [simp]: "fl 0 = 0"
  by (simp add: fl_def)

lemma fl_pos_bounds:
  assumes "0 < x"
  shows "2 powr of_int \<lfloor>log 2 \<bar>x\<bar>\<rfloor> \<le> fl x"
    and "fl x \<le> 2 powr (of_int \<lfloor>log 2 \<bar>x\<bar>\<rfloor> + 1)"
proof -
  define e where "e = \<lfloor>log 2 \<bar>x\<bar>\<rfloor>"
  define y where "y = x / 2 powr of_int (e - 52)"
  have y: "2 ^ 52 \<le> y" "y < 2 ^ 53"
    using scaled_bounds [OF assms] unfolding y_def e_def by simp_all
  have "rne (of_int (2 ^ 52)) \<le> rne y"
    using y(1) by (intro rne_mono) simp
  then have lo: "2 ^ 52 \<le> rne y"
    by (simp only: rne_of_int)
  have "rne y \<le> rne (of_int (2 ^ 53))"
    using y(2) by (intro rne_mono) simp
  then have hi: "rne y \<le> 2 ^ 53"
    by (simp only: rne_of_int)
  have f: "fl x = of_int (rne y) * 2 powr of_int (e - 52)"
    using assms by (simp add: fl_def y_def e_def)
  have u: "(2::real) powr of_int (e - 52) = 2 powr of_int e / 2 ^ 52"
    by (simp add: powr_diff)
  have p: "(0::real) < 2 powr of_int e"
    by simp
  have "(of_int ((2::int) ^ 52) :: real) \<le> of_int (rne y)"
    using lo by (simp only: of_int_le_iff)
  then have lo': "(2::real) ^ 52 \<le> of_int (rne y)"
    by simp
  have "(of_int (rne y) :: real) \<le> of_int ((2::int) ^ 53)"
    using hi by (simp only: of_int_le_iff)
  then have hi': "of_int (rne y) \<le> (2::real) ^ 53"
    by simp
  have "(2::real) powr of_int e = 2 ^ 52 * (2 powr of_int e / 2 ^ 52)"
    by simp
  also have "\<dots> \<le> of_int (rne y) * (2 powr of_int e / 2 ^ 52)"
    using lo' p by (intro mult_right_mono) simp_all
  finally show "2 powr of_int \<lfloor>log 2 \<bar>x\<bar>\<rfloor> \<le> fl x"
    unfolding f u e_def [symmetric] .
  have "of_int (rne y) * ((2::real) powr of_int e / 2 ^ 52) \<le> 2 ^ 53 * (2 powr of_int e / 2 ^ 52)"
    using hi' p by (intro mult_right_mono) simp_all
  also have "\<dots> = 2 powr (of_int e + 1)"
    by (simp add: powr_add)
  finally show "fl x \<le> 2 powr (of_int \<lfloor>log 2 \<bar>x\<bar>\<rfloor> + 1)"
    unfolding f u e_def [symmetric] .
qed

lemma fl_pos: "0 < x \<Longrightarrow> 0 < fl x"
  using fl_pos_bounds(1) [of x] powr_gt_zero [of 2 "of_int \<lfloor>log 2 \<bar>x\<bar>\<rfloor>"]
  by linarith

lemma fl_nonneg: "0 \<le> x \<Longrightarrow> 0 \<le> fl x"
  using fl_pos [of x] by (cases "x = 0") (simp_all add: less_le)

lemma fl_mono_pos:
  assumes "0 < x" and "x \<le> y"
  shows "fl x \<le> fl y"
proof -
  define e where "e = \<lfloor>log 2 \<bar>x\<bar>\<rfloor>"
  define e' where "e' = \<lfloor>log 2 \<bar>y\<bar>\<rfloor>"
  have y0: "0 < y"
    using assms by linarith
  have "log 2 x \<le> log 2 y"
    using assms by (simp add: log_le_cancel_iff)
  then have ee: "e \<le> e'"
    unfolding e_def e'_def using assms y0 by (simp add: floor_mono)
  show ?thesis
  proof (cases "e = e'")
    case True
    have "x / 2 powr of_int (e - 52) \<le> y / 2 powr of_int (e - 52)"
      using assms by (simp add: divide_right_mono)
    then have "rne (x / 2 powr of_int (e - 52)) \<le> rne (y / 2 powr of_int (e - 52))"
      by (rule rne_mono)
    then have "of_int (rne (x / 2 powr of_int (e - 52))) * (2::real) powr of_int (e - 52)
        \<le> of_int (rne (y / 2 powr of_int (e - 52))) * 2 powr of_int (e - 52)"
      by (intro mult_right_mono) simp_all
    then show ?thesis
      using assms y0 True by (simp add: fl_def e_def e'_def)
  next
    case False
    then have "of_int e + 1 \<le> (of_int e' :: real)"
      using ee by linarith
    then have "(2::real) powr (of_int e + 1) \<le> 2 powr of_int e'"
      by simp
    then show ?thesis
      using fl_pos_bounds(2) [OF assms(1)] fl_pos_bounds(1) [OF y0]
      unfolding e_def e'_def by linarith
  qed
qed

lemma fl_mono_nonneg: "0 \<le> x \<Longrightarrow> x \<le> y \<Longrightarrow> fl x \<le> fl y"
  using fl_mono_pos [of x y] fl_nonneg [of y] by (cases "x = 0") simp_all

lemma fl_exact:
  assumes "\<bar>m\<bar> < 2 ^ 53"
  shows "fl (of_int m * 2 powr of_int k) = of_int m * 2 powr of_int k"
proof (cases "m = 0")
  case True
  then show ?thesis
    by simp
next
  case False
  define x :: real where "x = of_int m * 2 powr of_int k"
  define e where "e = \<lfloor>log 2 \<bar>x\<bar>\<rfloor>"
  have x0: "x \<noteq> 0"
    using False by (simp add: x_def)
  have ax: "\<bar>x\<bar> = of_int \<bar>m\<bar> * 2 powr of_int k"
    by (simp add: x_def abs_mult)
  have "(of_int \<bar>m\<bar> :: real) < of_int (2 ^ 53)"
    using assms by (simp only: of_int_less_iff)
  then have "of_int \<bar>m\<bar> < (2::real) ^ 53"
    by simp
  then have "\<bar>x\<bar> < 2 ^ 53 * 2 powr of_int k"
    unfolding ax by (intro mult_strict_right_mono) simp_all
  also have "\<dots> = 2 powr (of_int k + 53)"
    by (simp add: powr_add)
  finally have "2 powr of_int e < (2::real) powr (of_int k + 53)"
    using exponent_bounds(1) [OF x0] unfolding e_def by linarith
  then have "of_int e < (of_int k + 53 :: real)"
    by simp
  then have j0: "0 \<le> k - (e - 52)"
    by linarith
  define j where "j = nat (k - (e - 52))"
  have "of_int k = of_int (e - 52) + (real j)"
    using j0 by (simp add: j_def)
  then have "(2::real) powr of_int k = 2 powr of_int (e - 52) * 2 powr (real j)"
    by (simp only: powr_add)
  then have pk: "(2::real) powr of_int k = 2 powr of_int (e - 52) * 2 ^ j"
    by (simp add: powr_realpow)
  have "x / 2 powr of_int (e - 52) = of_int m * 2 ^ j"
    unfolding x_def pk by simp
  also have "\<dots> = of_int (m * 2 ^ j)"
    by simp
  finally have sc: "x / 2 powr of_int (e - 52) = of_int (m * 2 ^ j)" .
  have "fl x = of_int (rne (x / 2 powr of_int (e - 52))) * 2 powr of_int (e - 52)"
    using x0 by (simp add: fl_def e_def)
  also have "\<dots> = of_int (m * 2 ^ j) * 2 powr of_int (e - 52)"
    unfolding sc by (simp only: rne_of_int)
  also have "\<dots> = x"
    unfolding x_def pk by simp
  finally show ?thesis
    unfolding x_def .
qed

lemma fl_int: "\<bar>m\<bar> < 2 ^ 53 \<Longrightarrow> fl (of_int m) = of_int m"
  using fl_exact [of m 0] by simp

lemma fl_dyadic:
  assumes "\<bar>m\<bar> < 2 ^ 53"
  shows "fl (of_int m / 2 ^ n) = of_int m / 2 ^ n"
proof -
  have "(2::real) powr of_int (- int n) = 1 / 2 ^ n"
    by (simp add: powr_minus powr_realpow inverse_eq_divide)
  then show ?thesis
    using fl_exact [OF assms, of "- int n"] by simp
qed

lemma fl_eqI:
  assumes "2 ^ 52 < m" and "m < 2 ^ 53"
      and "of_int m - 1 / 2 < x / 2 powr of_int k"
      and "x / 2 powr of_int k < of_int m + 1 / 2"
  shows "fl x = of_int m * 2 powr of_int k"
proof -
  define y where "y = x / 2 powr of_int k"
  have "(2::int) ^ 52 + 1 \<le> m"
    using assms(1) by simp
  then have "(of_int ((2::int) ^ 52 + 1) :: real) \<le> of_int m"
    by (simp only: of_int_le_iff)
  then have m1: "(2::real) ^ 52 + 1 \<le> of_int m"
    by simp
  have "m + 1 \<le> (2::int) ^ 53"
    using assms(2) by simp
  then have "(of_int (m + 1) :: real) \<le> of_int ((2::int) ^ 53)"
    by (simp only: of_int_le_iff)
  then have m2: "of_int m + 1 \<le> (2::real) ^ 53"
    by simp
  have y: "2 ^ 52 \<le> y" "y < 2 ^ 53"
    using m1 m2 assms(3,4) unfolding y_def by linarith+
  have p: "(0::real) < 2 powr of_int k"
    by simp
  have xy: "x = y * 2 powr of_int k"
    by (simp add: y_def)
  have x0: "0 < x"
    unfolding xy using y(1) p by (intro mult_pos_pos) simp_all
  have "(2::real) powr of_int (k + 52) = 2 ^ 52 * 2 powr of_int k"
    by (simp add: powr_add)
  also have "\<dots> \<le> x"
    unfolding xy using y(1) p by (intro mult_right_mono) simp_all
  finally have lo: "2 powr of_int (k + 52) \<le> \<bar>x\<bar>"
    using x0 by simp
  have "x < 2 ^ 53 * 2 powr of_int k"
    unfolding xy using y(2) p by (intro mult_strict_right_mono) simp_all
  also have "\<dots> = 2 powr (of_int (k + 52) + 1)"
    by (simp add: powr_add)
  finally have hi: "\<bar>x\<bar> < 2 powr (of_int (k + 52) + 1)"
    using x0 by simp
  have e: "\<lfloor>log 2 \<bar>x\<bar>\<rfloor> = k + 52"
    using lo hi by (rule exponent_eqI)
  have r: "rne y = m"
    using assms(3,4) unfolding y_def by (rule rne_near)
  have ne: "x \<noteq> 0"
    using x0 by simp
  have "fl x = of_int (rne (x / 2 powr of_int (\<lfloor>log 2 \<bar>x\<bar>\<rfloor> - 52)))
                * 2 powr of_int (\<lfloor>log 2 \<bar>x\<bar>\<rfloor> - 52)"
    unfolding fl_def using ne by (rule if_not_P)
  also have "\<dots> = of_int (rne y) * 2 powr of_int k"
    unfolding e y_def by simp
  finally show ?thesis
    unfolding r .
qed

text \<open>A value between two floats rounds to a value between them.\<close>

lemma fl_between:
  assumes "0 \<le> a" and "a \<le> x" and "x \<le> b" and "fl a = a" and "fl b = b"
  shows "a \<le> fl x" and "fl x \<le> b"
proof -
  have "fl a \<le> fl x"
    using assms(1,2) by (rule fl_mono_nonneg)
  then show "a \<le> fl x"
    unfolding assms(4) .
  have "0 \<le> x"
    using assms(1,2) by linarith
  then have "fl x \<le> fl b"
    using assms(3) by (rule fl_mono_nonneg)
  then show "fl x \<le> b"
    unfolding assms(5) .
qed

subsection \<open>The model\<close>

lemma py_int_nonneg: "0 \<le> r \<Longrightarrow> py_int r = \<lfloor>r\<rfloor>"
  by (simp add: py_int_def)

lemma floor_half: "\<lfloor>of_int s / (2::real)\<rfloor> = s div 2"
  using floor_divide_of_int_eq [of s 2, where ?'a = real] by simp

lemma py_int_half:
  assumes "0 < s"
  shows "py_int (of_int s / 2) = s div 2"
proof -
  have "0 \<le> (of_int s :: real) / 2"
    using assms by simp
  then have "py_int (of_int s / 2) = \<lfloor>(of_int s :: real) / 2\<rfloor>"
    by (rule py_int_nonneg)
  then show ?thesis
    by (simp only: floor_half)
qed

lemma py_truediv_nonzero: "b \<noteq> 0 \<Longrightarrow> py_truediv a b = Inr (a / b)"
  by (simp add: py_truediv_def)


lemma bump_odd: "odd (if (k::int) mod 2 = 0 then k + 1 else k)"
  by presburger

lemma py_fdiv_nonzero: "b \<noteq> 0 \<Longrightarrow> py_fdiv a b = Inr (fdiv a b)"
  by (simp add: py_fdiv_def)

lemma segment_length_pos:
  assumes "0 < min_freq"
  shows "0 < fdiv (fmul (fl 0.05) speed_of_light) min_freq"
proof -
  have "0 < fl 0.05"
    by (rule fl_pos) simp
  then have "0 < fl 0.05 * speed_of_light"
    by (simp add: speed_of_light_def)
  then have "0 < fmul (fl 0.05) speed_of_light"
    unfolding fmul_def by (rule fl_pos)
  then have "0 < fmul (fl 0.05) speed_of_light / min_freq"
    using assms by simp
  then show ?thesis
    unfolding fdiv_def by (rule fl_pos)
qed

lemma auto_segments_eq:
  assumes "0 < min_freq" and "0 \<le> len"
  shows "auto_segments min_freq len =
     Inr (if \<lfloor>fdiv len (fdiv (fmul (fl 0.05) speed_of_light) min_freq)\<rfloor> mod 2 = 0
          then \<lfloor>fdiv len (fdiv (fmul (fl 0.05) speed_of_light) min_freq)\<rfloor> + 1
          else \<lfloor>fdiv len (fdiv (fmul (fl 0.05) speed_of_light) min_freq)\<rfloor>)"
proof -
  define sl where "sl = fdiv (fmul (fl 0.05) speed_of_light) min_freq"
  have pos: "0 < sl"
    unfolding sl_def using assms(1) by (rule segment_length_pos)
  then have "0 \<le> len / sl"
    using assms(2) by (intro divide_nonneg_pos)
  then have "0 \<le> fdiv len sl"
    unfolding fdiv_def by (rule fl_nonneg)
  then have i: "py_int (fdiv len sl) = \<lfloor>fdiv len sl\<rfloor>"
    by (rule py_int_nonneg)
  have d1: "py_fdiv (fmul (fl 0.05) speed_of_light) min_freq = Inr sl"
    unfolding sl_def using assms(1) by (intro py_fdiv_nonzero) simp
  have d2: "py_fdiv len sl = Inr (fdiv len sl)"
    using pos by (intro py_fdiv_nonzero) simp
  have "auto_segments min_freq len =
     Inr (if \<lfloor>fdiv len sl\<rfloor> mod 2 = 0 then \<lfloor>fdiv len sl\<rfloor> + 1 else \<lfloor>fdiv len sl\<rfloor>)"
    unfolding auto_segments_def d1 by (simp only: sum.case d2 i Let_def)
  then show ?thesis
    unfolding sl_def .
qed

lemma fmul_square_nonneg: "0 \<le> fmul u u"
  unfolding fmul_def by (rule fl_nonneg) simp

lemma fadd_nonneg: "0 \<le> a \<Longrightarrow> 0 \<le> b \<Longrightarrow> 0 \<le> fadd a b"
  unfolding fadd_def by (rule fl_nonneg) simp

lemma wire_length_nonneg: "0 \<le> wire_length ax ay az bx by bz"
proof -
  have "0 \<le> fadd (fadd (fmul (fsub bz az) (fsub bz az)) (fmul (fsub by ay) (fsub by ay)))
                 (fmul (fsub bx ax) (fsub bx ax))"
    by (intro fadd_nonneg fmul_square_nonneg)
  then have "0 \<le> sqrt (fadd (fadd (fmul (fsub bz az) (fsub bz az))
                 (fmul (fsub by ay) (fsub by ay))) (fmul (fsub bx ax) (fsub bx ax)))"
    by simp
  then show ?thesis
    unfolding wire_length_def fsqrt_def by (rule fl_nonneg)
qed

text \<open>A wire between two points that differ in \<open>x\<close> only.\<close>

lemma wire_length_along_x:
  assumes "fsub bx ax = d" and "0 \<le> d" and "fl d = d" and "fl (d * d) = d * d"
  shows "wire_length ax y z bx y z = d"
proof -
  have "sqrt (d * d) = d"
    using assms(2) by simp
  then show ?thesis
    unfolding wire_length_def assms(1)
    by (simp add: fsub_def fmul_def fadd_def fsqrt_def assms(3,4))
qed

lemma wire_length_same: "wire_length ax ay az ax ay az = 0"
  by (simp add: wire_length_def fsub_def fmul_def fadd_def fsqrt_def)

text \<open>The segment length at the module's 8 MHz lies between 237/128 and 15/8 metres.\<close>

lemma segment_length_bounds:
  shows "237 / 128 \<le> fdiv (fmul (fl 0.05) speed_of_light) min_frequency"
    and "fdiv (fmul (fl 0.05) speed_of_light) min_frequency \<le> 15 / 8"
proof -
  have a: "51 / 1024 \<le> fl 0.05" "fl 0.05 \<le> 3277 / 65536"
    using fl_between [of "51 / 1024" "0.05" "3277 / 65536"]
      fl_dyadic [of 51 10] fl_dyadic [of 3277 16] by simp_all
  have "15289415358 / 1024 \<le> fl 0.05 * speed_of_light"
    using a(1) by (simp add: speed_of_light_def)
  moreover have "fl 0.05 * speed_of_light \<le> 982419884866 / 65536"
    using a(2) by (simp add: speed_of_light_def)
  ultimately have t: "15289415358 / 1024 \<le> fmul (fl 0.05) speed_of_light"
      "fmul (fl 0.05) speed_of_light \<le> 982419884866 / 65536"
    unfolding fmul_def
    using fl_between [of "15289415358 / 1024" "fl 0.05 * speed_of_light" "982419884866 / 65536"]
      fl_dyadic [of 15289415358 10] fl_dyadic [of 982419884866 16] by simp_all
  have "237 / 128 \<le> fmul (fl 0.05) speed_of_light / min_frequency"
    using t(1) by (simp add: min_frequency_def)
  moreover have "fmul (fl 0.05) speed_of_light / min_frequency \<le> 15 / 8"
    using t(2) by (simp add: min_frequency_def)
  ultimately show "237 / 128 \<le> fdiv (fmul (fl 0.05) speed_of_light) min_frequency"
      and "fdiv (fmul (fl 0.05) speed_of_light) min_frequency \<le> 15 / 8"
    unfolding fdiv_def
    using fl_between [of "237 / 128" "fmul (fl 0.05) speed_of_light / min_frequency" "15 / 8"]
      fl_dyadic [of 237 7] fl_dyadic [of 15 3] by simp_all
qed

lemma floor_fl_between:
  assumes "0 \<le> k" and "k < 2 ^ 51" and "of_int k \<le> x" and "x \<le> of_int k + 1 / 2"
  shows "\<lfloor>fl x\<rfloor> = k"
proof -
  have k1: "fl (of_int k) = of_int k"
    using assms(1,2) by (intro fl_int) simp
  have "\<bar>2 * k + 1\<bar> < 2 ^ 53"
    using assms(1,2) by simp
  then have d: "fl (of_int (2 * k + 1) / 2 ^ 1) = of_int (2 * k + 1) / 2 ^ 1"
    by (rule fl_dyadic)
  have e: "of_int (2 * k + 1) / 2 ^ 1 = (of_int k + 1 / 2 :: real)"
    by simp
  have k2: "fl (of_int k + 1 / 2) = of_int k + 1 / 2"
    using d unfolding e .
  have "(0::real) \<le> of_int k"
    using assms(1) by simp
  then have "of_int k \<le> fl x" "fl x \<le> of_int k + 1 / 2"
    using fl_between [OF _ assms(3,4) k1 k2] by simp_all
  then show ?thesis
    by (intro floor_unique) simp_all
qed

text \<open>
  The segment count of a wire of known length at 8 MHz, when the quotient stays clear of
  the next integer.
\<close>

lemma auto_segments_value:
  assumes "0 \<le> k" and "k < 2 ^ 51"
      and "of_int k \<le> len / (15 / 8)" and "len / (237 / 128) \<le> of_int k + 1 / 2"
  shows "auto_segments min_frequency len = Inr (if k mod 2 = 0 then k + 1 else k)"
proof -
  define sl where "sl = fdiv (fmul (fl 0.05) speed_of_light) min_frequency"
  have sl: "237 / 128 \<le> sl" "sl \<le> 15 / 8"
    unfolding sl_def by (rule segment_length_bounds)+
  have "(0::real) \<le> of_int k"
    using assms(1) by simp
  then have l0: "0 \<le> len"
    using assms(3) by (simp add: field_simps)
  have "len / (15 / 8) \<le> len / sl"
    using sl l0 by (intro divide_left_mono) simp_all
  then have lo: "of_int k \<le> len / sl"
    using assms(3) by linarith
  have "len / sl \<le> len / (237 / 128)"
    using sl l0 by (intro divide_left_mono) simp_all
  then have hi: "len / sl \<le> of_int k + 1 / 2"
    using assms(4) by linarith
  have "\<lfloor>fdiv len sl\<rfloor> = k"
    unfolding fdiv_def using assms(1,2) lo hi by (rule floor_fl_between)
  moreover have "0 < min_frequency"
    by (simp add: min_frequency_def)
  ultimately show ?thesis
    using auto_segments_eq [of min_frequency len] l0 unfolding sl_def by simp
qed

lemma Wire_init_ok:
  "\<exists>w. Wire_init ax ay az bx by bz r segs wn = (Inr w, wn + 1) \<and> wire_number w = wn + 1
       \<and> (if segs = 0 then odd (segments w) else segments w = segs)"
proof (cases "segs = 0")
  case True
  have "0 < min_frequency"
    by (simp add: min_frequency_def)
  then obtain n where n: "auto_segments min_frequency (wire_length ax ay az bx by bz) = Inr n"
      and "odd n"
    using auto_segments_eq [OF _ wire_length_nonneg] bump_odd by metis
  then show ?thesis
    using True by (simp add: Wire_init_def Let_def)
next
  case False
  then show ?thesis
    by (simp add: Wire_init_def Let_def)
qed

lemma py_for_wires:
  assumes "\<And>x wn. \<exists>w. f x wn = (Inr w, wn + 1) \<and> wire_number w = wn + 1"
  shows "\<exists>ws. py_for xs f wn = (Inr ws, wn + int (length xs))
            \<and> map wire_number ws = [wn + 1..wn + int (length xs)]"
proof (induction xs arbitrary: wn)
  case Nil
  show ?case
    by (simp add: py_return_def)
next
  case (Cons x xs)
  obtain w where w: "f x wn = (Inr w, wn + 1)" "wire_number w = wn + 1"
    using assms by blast
  obtain ws where ws: "py_for xs f (wn + 1) = (Inr ws, wn + 1 + int (length xs))"
      "map wire_number ws = [wn + 1 + 1..wn + 1 + int (length xs)]"
    using Cons.IH by blast
  have "[wn + 1..wn + int (length (x # xs))] = (wn + 1) # [wn + 1 + 1..wn + 1 + int (length xs)]"
    by (subst upto_rec1) (simp_all add: add.assoc)
  then show ?case
    using w ws by (simp add: py_bind_def py_return_def)
qed

lemma calculate_phase_from_beam_eq:
  assumes "f \<noteq> 0"
  shows "calculate_phase_from_beam b f d =
         Inr (360 * d * sin (((b - 16 / 2 + 0.5) * 3.24) * pi / 180) / (speed_of_light / f))"
proof -
  have "py_truediv speed_of_light f = Inr (speed_of_light / f)"
    using assms by (rule py_truediv_nonzero)
  moreover have "speed_of_light / f \<noteq> 0"
    using assms by (simp add: speed_of_light_def)
  ultimately show ?thesis
    by (simp add: calculate_phase_from_beam_def calculate_angle_from_beam_def
          py_truediv_nonzero)
qed

lemma sin_beam_zero_neg: "sin (((0 - 16 / 2 + 0.5) * 3.24) * pi / 180) < (0::real)"
proof -
  have "0 < sin (0.135 * pi)"
    by (rule sin_gt_zero) (simp_all add: pi_gt_zero)
  moreover have "((0 - 16 / 2 + 0.5) * 3.24) * pi / 180 = - (0.135 * pi)"
    by simp
  ultimately show ?thesis
    by (simp only: sin_minus)
qed

lemma gw_ids_append: "gw_ids (xs @ ys) = gw_ids xs @ gw_ids ys"
  by (induction xs rule: gw_ids.induct) simp_all

lemma ld5_tags_append: "ld5_tags (xs @ ys) = ld5_tags xs @ ld5_tags ys"
  by (induction xs rule: ld5_tags.induct) simp_all

lemma no_ids_append: "no_ids (xs @ ys) \<longleftrightarrow> no_ids xs \<and> no_ids ys"
  by (auto simp add: no_ids_def gw_ids_append ld5_tags_append)

lemma gw_ids_repr_wire: "gw_ids (map repr_wire ws) = map wire_number ws"
  by (induction ws) (simp_all add: repr_wire_def)

lemma ld5_tags_repr_wire: "ld5_tags (map repr_wire ws) = []"
  by (induction ws) (simp_all add: repr_wire_def)

lemma translate_keeps [simp]:
  "wire_number (translate w x y z) = wire_number w"
  "segments (translate w x y z) = segments w"
  by (simp_all add: translate_def)

lemma py_int_truediv_half:
  assumes "\<bar>s\<bar> < 2 ^ 53"
  shows "py_int_truediv s 2 = Inr (of_int s / 2)"
proof -
  have "fl (of_int s / 2 ^ 1) = of_int s / 2 ^ 1"
    using assms by (rule fl_dyadic)
  then have f: "fdiv (of_int s) (of_int 2) = of_int s / 2"
    by (simp add: fdiv_def)
  have "(of_int \<bar>s\<bar> :: real) < of_int (2 ^ 53)"
    using assms by (simp only: of_int_less_iff)
  then have "\<bar>of_int s / 2\<bar> < (2::real) ^ 53"
    by simp
  moreover have "(2::real) ^ 53 \<le> 2 ^ 1024"
    by (rule power_increasing) simp_all
  ultimately have "\<not> (2::real) ^ 1024 \<le> \<bar>of_int s / 2\<bar>"
    by linarith
  then show ?thesis
    unfolding py_int_truediv_def f by simp
qed

lemma get_mid_segment_small:
  assumes "odd (segments w)" and "\<bar>segments w\<bar> < 2 ^ 53"
  shows "get_mid_segment w = Inr (1 + py_int (of_int (segments w) / 2))"
  using assms(1) py_int_truediv_half [OF assms(2)]
  by (simp add: get_mid_segment_def even_iff_mod_2_eq_zero)

lemma Wire_init_auto:
  "\<exists>w. Wire_init ax ay az bx by bz r 0 wn = (Inr w, wn + 1) \<and> wire_number w = wn + 1
       \<and> odd (segments w)"
  using Wire_init_ok [of ax ay az bx "by" bz r 0 wn] by simp

lemma Wire_init_auto_value:
  assumes "wire_length ax ay az bx by bz = len" and "0 \<le> k" and "k < 2 ^ 51"
      and "of_int k \<le> len / (15 / 8)" and "len / (237 / 128) \<le> of_int k + 1 / 2"
  shows "\<exists>w. Wire_init ax ay az bx by bz r 0 wn = (Inr w, wn + 1) \<and> wire_number w = wn + 1
           \<and> segments w = (if k mod 2 = 0 then k + 1 else k)"
  using auto_segments_value [OF assms(2-5)] assms(1) by (simp add: Wire_init_def Let_def)

text \<open>The top and bottom wires of a TTFD are 8 m long, its middle wire 12 m.\<close>

lemma wire_length_8: "wire_length (- 8 / 2) y z (8 / 2) y z = 8"
  using fl_int [of 8] fl_int [of 64]
  by (intro wire_length_along_x) (simp_all add: fsub_def)

lemma wire_length_12: "wire_length (- 12 / 2) y z (12 / 2) y z = 12"
  using fl_int [of 12] fl_int [of 144]
  by (intro wire_length_along_x) (simp_all add: fsub_def)

lemma Wire_init_8:
  "\<exists>w. Wire_init (- 8 / 2) y z (8 / 2) y z r 0 wn = (Inr w, wn + 1) \<and> wire_number w = wn + 1
       \<and> segments w = 5"
  using Wire_init_auto_value [OF wire_length_8, of 4] by simp

lemma Wire_init_12:
  "\<exists>w. Wire_init (- 12 / 2) y z (12 / 2) y z r 0 wn = (Inr w, wn + 1)
       \<and> wire_number w = wn + 1 \<and> segments w = 7"
  using Wire_init_auto_value [OF wire_length_12, of 6] by simp

lemma upto_7: "[wn + 1..wn + 7] = [wn + 1, wn + 2, wn + 3, wn + 4, wn + 5, wn + 6, wn + 7]"
  by (simp add: upto_rec1)

text \<open>A TTFD with the dimensions the array assembly gives it.\<close>

lemma TTFD_init_ok:
  "\<exists>t. TTFD_init 13 10 100 12 8 1.5 gx gy gz cr ci wn = (Inr t, wn + 7)
       \<and> antenna_ok wn 7 (A_TTFD t)"
proof -
  define rmm :: real where "rmm = 0.127 * (92 powr (of_int (36 - 13) / of_int 39))"
  have r: "get_mm_radius_from_awg 13 = Inr rmm"
    unfolding rmm_def get_mm_radius_from_awg_def by simp
  define r where "r = rmm / 1000"
  obtain w1 where w1: "Wire_init (- 12 / 2) 0 10 (- 8 / 2) 0 (1.5 + 10) r 0 wn = (Inr w1, wn + 1)"
      "wire_number w1 = wn + 1"
    using Wire_init_auto by blast
  obtain w2 where w2: "Wire_init (- 8 / 2) 0 (1.5 + 10) (8 / 2) 0 (1.5 + 10) r 0 (wn + 1)
       = (Inr w2, wn + 2)" "wire_number w2 = wn + 2" "segments w2 = 5"
    using Wire_init_8 [of _ _ _ "wn + 1"] by (simp add: add.assoc) blast
  obtain w3 where w3: "Wire_init (12 / 2) 0 10 (8 / 2) 0 (1.5 + 10) r 0 (wn + 2)
       = (Inr w3, wn + 3)" "wire_number w3 = wn + 3"
    using Wire_init_auto [of _ _ _ _ _ _ _ "wn + 2"] by (simp add: add.assoc) blast
  obtain w4 where w4: "Wire_init (- 12 / 2) 0 10 (12 / 2) 0 10 r 0 (wn + 3)
       = (Inr w4, wn + 4)" "wire_number w4 = wn + 4" "segments w4 = 7"
    using Wire_init_12 [of _ _ _ "wn + 3"] by (simp add: add.assoc) blast
  obtain w5 where w5: "Wire_init (- 12 / 2) 0 10 (- 8 / 2) 0 (- 1.5 + 10) r 0 (wn + 4)
       = (Inr w5, wn + 5)" "wire_number w5 = wn + 5"
    using Wire_init_auto [of _ _ _ _ _ _ _ "wn + 4"] by (simp add: add.assoc) blast
  obtain w6 where w6: "Wire_init (- 8 / 2) 0 (- 1.5 + 10) (8 / 2) 0 (- 1.5 + 10) r 0 (wn + 5)
       = (Inr w6, wn + 6)" "wire_number w6 = wn + 6" "segments w6 = 5"
    using Wire_init_8 [of _ _ _ "wn + 5"] by (simp add: add.assoc) blast
  obtain w7 where w7: "Wire_init (12 / 2) 0 10 (8 / 2) 0 (- 1.5 + 10) r 0 (wn + 6)
       = (Inr w7, wn + 7)" "wire_number w7 = wn + 7"
    using Wire_init_auto [of _ _ _ _ _ _ _ "wn + 6"] by (simp add: add.assoc) blast
  obtain m2 where m2: "get_mid_segment (translate w2 gx gy gz) = Inr m2"
    using get_mid_segment_small [of "translate w2 gx gy gz"] w2(3) by simp
  obtain m6 where m6: "get_mid_segment (translate w6 gx gy gz) = Inr m6"
    using get_mid_segment_small [of "translate w6 gx gy gz"] w6(3) by simp
  obtain m4 where m4: "get_mid_segment (translate w4 gx gy gz) = Inr m4"
    using get_mid_segment_small [of "translate w4 gx gy gz"] w4(3) by simp
  define t where "t =
       \<lparr>wire_radius_m = r, comment_string = CM_TTFD 10 13 100 12 8 1.5,
        topleftwire = translate w1 gx gy gz, topwire = translate w2 gx gy gz,
        toprightwire = translate w3 gx gy gz, middlewire = translate w4 gx gy gz,
        bottomleftwire = translate w5 gx gy gz, bottomwire = translate w6 gx gy gz,
        bottomrightwire = translate w7 gx gy gz,
        topload = Load_init (get_wire_number (translate w2 gx gy gz)) m2 m2 100 0,
        bottomload = Load_init (get_wire_number (translate w6 gx gy gz)) m6 m6 100 0,
        excitation = Source_init (get_wire_number (translate w4 gx gy gz)) m4 cr ci True\<rparr>"
  have run: "TTFD_init 13 10 100 12 8 1.5 gx gy gz cr ci wn = (Inr t, wn + 7)"
    unfolding TTFD_init_def t_def
    by (simp only: py_bind_def py_lift_def py_return_def Let_def r r_def[symmetric]
          w1 w2 w3 w4 w5 w6 w7 m2 m4 m6 prod.case sum.case)
  have ok: "antenna_ok wn 7 (A_TTFD t)"
    unfolding antenna_ok_def t_def
    by (simp add: repr_geometry_def repr_loads_def repr_excitations_def
          repr_transmissionlines_def repr_comment_string_def no_ids_def repr_wire_def
          Load_init_def Source_init_def Let_def upto_7 w1 w2 w3 w4 w5 w6 w7)
  show ?thesis
    using run ok by blast
qed

lemma Wire_init_explicit:
  "segs \<noteq> 0 \<Longrightarrow> Wire_init ax ay az bx by bz r segs wn =
     (Inr \<lparr>wire_number = wn + 1, segments = segs, x1 = ax, y1 = ay, z1 = az,
           x2 = bx, y2 = by, z2 = bz, radius = r\<rparr>, wn + 1)"
  by (simp add: Wire_init_def Let_def)

lemma upto_10:
  "[wn + 1..wn + 10] =
     [wn + 1, wn + 2, wn + 3, wn + 4, wn + 5, wn + 6, wn + 7, wn + 8, wn + 9, wn + 10]"
  by (simp add: upto_rec1)

lemma no_ids_TL [simp]: "no_ids (TL a b c d e f # cs) = no_ids cs"
  by (simp add: no_ids_def)

lemma no_ids_Nil [simp]: "no_ids []"
  by (simp add: no_ids_def)

lemma get_mid_segment_literal:
  assumes "odd s" and "\<bar>s\<bar> < 2 ^ 53"
  shows "get_mid_segment \<lparr>wire_number = n, segments = s, x1 = ax, y1 = ay, z1 = az,
           x2 = bx, y2 = by, z2 = bz, radius = r\<rparr> = Inr (1 + py_int (of_int s / 2))"
  using get_mid_segment_small [of "\<lparr>wire_number = n, segments = s, x1 = ax, y1 = ay,
           z1 = az, x2 = bx, y2 = by, z2 = bz, radius = r\<rparr>"] assms by simp

lemma LogPeriodic_init_ok:
  "\<exists>l. LogPeriodic_init h gx gy gz cr ci wn = (Inr l, wn + 10)
       \<and> antenna_ok wn 10 (A_LogPeriodic l)"
  unfolding LogPeriodic_init_def lp_table_def antenna_ok_def
  by (simp add: py_bind_def py_lift_def py_return_def Let_def Wire_init_explicit
        get_mid_segment_literal get_wire_number_def repr_geometry_def repr_loads_def
        repr_excitations_def repr_transmissionlines_def repr_comment_string_def
        repr_wire_def TransmissionLine_init_def Source_init_def upto_10 no_ids_def)

lemma upto_append:
  assumes "i \<le> j + 1" and "j \<le> k"
  shows "[i..j] @ [j + 1..k] = [i..k]"
proof (cases "j + 1 \<le> k")
  case True
  then show ?thesis
    using upto_split1 [of i "j + 1" k] assms by simp
next
  case False
  then have "k = j"
    using assms by simp
  then show ?thesis
    by simp
qed

lemma py_for_antennas:
  assumes "\<And>x wn. x \<in> set xs \<Longrightarrow> \<exists>a. f x wn = (Inr a, wn + c) \<and> antenna_ok wn c a"
  shows "\<exists>as. py_for xs f wn = (Inr as, wn + c * int (length xs)) \<and> antennas_ok wn c as
            \<and> length as = length xs"
  using assms
proof (induction xs arbitrary: wn)
  case Nil
  show ?case
    by (simp add: py_return_def)
next
  case (Cons x xs)
  obtain a where a: "f x wn = (Inr a, wn + c)" "antenna_ok wn c a"
    using Cons.prems [of x wn] by auto
  have "\<exists>as. py_for xs f (wn + c) = (Inr as, wn + c + c * int (length xs))
           \<and> antennas_ok (wn + c) c as \<and> length as = length xs"
    by (rule Cons.IH) (simp add: Cons.prems)
  then obtain as where as: "py_for xs f (wn + c) = (Inr as, wn + c + c * int (length xs))"
      "antennas_ok (wn + c) c as" "length as = length xs"
    by blast
  have "wn + c + c * int (length xs) = wn + c * int (length (x # xs))"
    by (simp add: algebra_simps)
  then show ?case
    using a as by (simp add: py_bind_def py_return_def)
qed

lemma antennas_ok_geometry:
  assumes "antennas_ok wn c as" and "0 \<le> c"
  shows "gw_ids (concat (map repr_geometry as)) = [wn + 1..wn + c * int (length as)]
       \<and> ld5_tags (concat (map repr_geometry as)) = []"
  using assms(1)
proof (induction as arbitrary: wn)
  case Nil
  show ?case by simp
next
  case (Cons a as)
  have a: "gw_ids (repr_geometry a) = [wn + 1..wn + c]" "ld5_tags (repr_geometry a) = []"
    using Cons.prems by (simp_all add: antenna_ok_def)
  have r: "gw_ids (concat (map repr_geometry as)) = [wn + c + 1..wn + c + c * int (length as)]"
      "ld5_tags (concat (map repr_geometry as)) = []"
    using Cons.IH [of "wn + c"] Cons.prems by simp_all
  have n: "0 \<le> c * int (length as)"
    using assms(2) by simp
  have e: "wn + c + c * int (length as) = wn + c * int (length (a # as))"
    by (simp add: algebra_simps)
  have "gw_ids (concat (map repr_geometry (a # as)))
      = [wn + 1..wn + c] @ [wn + c + 1..wn + c + c * int (length as)]"
    by (simp add: gw_ids_append a r)
  also have "\<dots> = [wn + 1..wn + c + c * int (length as)]"
    using assms(2) n by (intro upto_append) simp_all
  also have "\<dots> = [wn + 1..wn + c * int (length (a # as))]"
    by (simp only: e)
  finally show ?case
    using a r by (simp add: ld5_tags_append)
qed

lemma antennas_ok_others:
  assumes "antennas_ok wn c as"
  shows "no_ids (concat (map repr_loads as))
       \<and> no_ids (concat (map (\<lambda>m. repr_excitations m @ repr_transmissionlines m
                                   @ repr_comment_string m) as))
       \<and> no_ids (concat (map (\<lambda>i. repr_excitations i @ repr_transmissionlines i) as))"
  using assms
proof (induction as arbitrary: wn)
  case Nil
  show ?case by simp
next
  case (Cons a as)
  then show ?case
    by (simp add: antenna_ok_def no_ids_append) blast
qed

lemma py_index_ok: "0 \<le> i \<Longrightarrow> i < int (length xs) \<Longrightarrow> py_index xs i = Inr (xs ! nat i)"
  by (simp add: py_index_def)

lemma create_main_array_ok:
  assumes "int (length mags) = n" and "int (length phases) = n"
  shows "\<exists>as. create_main_array n sp mags phases lp wn
               = (Inr as, wn + (if lp then 10 else 7) * n)
             \<and> antennas_ok wn (if lp then 10 else 7) as \<and> int (length as) = n"
proof -
  define c :: int where "c = (if lp then 10 else 7)"
  define f :: "int \<Rightarrow> antenna py" where "f = (\<lambda>antenna.
           py_bind (py_lift (py_index phases antenna)) (\<lambda>phase.
           py_bind (py_lift (py_index mags antenna)) (\<lambda>magnitude.
           let real_cur = magnitude * cos (phase * pi / 180);
               imag_cur = magnitude * sin (phase * pi / 180);
               x_position = of_int antenna * sp - (of_int (n - 1) * sp) / 2
           in if lp then
                py_bind (LogPeriodic_init 15 x_position 0 0 real_cur imag_cur)
                  (\<lambda>l. py_return (A_LogPeriodic l))
              else
                py_bind (TTFD_init 13 10 100 12 8 1.5 x_position 0 0 real_cur imag_cur)
                  (\<lambda>t. py_return (A_TTFD t)))))"
  have step: "\<exists>a. f x wn = (Inr a, wn + c) \<and> antenna_ok wn c a"
    if "x \<in> set [0..n - 1]" for x wn
  proof -
    have x: "0 \<le> x" "x < n"
      using that by simp_all
    have i: "py_index phases x = Inr (phases ! nat x)" "py_index mags x = Inr (mags ! nat x)"
      using x assms by (simp_all add: py_index_ok)
    show ?thesis
    proof (cases lp)
      case True
      obtain l where "LogPeriodic_init 15 (of_int x * sp - (of_int (n - 1) * sp) / 2) 0 0
            (mags ! nat x * cos (phases ! nat x * pi / 180))
            (mags ! nat x * sin (phases ! nat x * pi / 180)) wn = (Inr l, wn + 10)"
          "antenna_ok wn 10 (A_LogPeriodic l)"
        using LogPeriodic_init_ok by blast
      then have "f x wn = (Inr (A_LogPeriodic l), wn + c) \<and> antenna_ok wn c (A_LogPeriodic l)"
        unfolding f_def c_def using True
        by (simp only: py_bind_def py_lift_def py_return_def Let_def i prod.case sum.case
              if_True simp_thms)
      then show ?thesis
        by blast
    next
      case False
      obtain t where "TTFD_init 13 10 100 12 8 1.5 (of_int x * sp - (of_int (n - 1) * sp) / 2)
            0 0 (mags ! nat x * cos (phases ! nat x * pi / 180))
            (mags ! nat x * sin (phases ! nat x * pi / 180)) wn = (Inr t, wn + 7)"
          "antenna_ok wn 7 (A_TTFD t)"
        using TTFD_init_ok by blast
      then have "f x wn = (Inr (A_TTFD t), wn + c) \<and> antenna_ok wn c (A_TTFD t)"
        unfolding f_def c_def using False
        by (simp only: py_bind_def py_lift_def py_return_def Let_def i prod.case sum.case
              if_False simp_thms)
      then show ?thesis
        by blast
    qed
  qed
  have "0 \<le> n"
    using assms(1) by simp
  then have len: "int (length [0..n - 1]) = n"
    by simp
  obtain as where "py_for [0..n - 1] f wn = (Inr as, wn + c * int (length [0..n - 1]))"
      "antennas_ok wn c as" "length as = length [0..n - 1]"
    using py_for_antennas [of "[0..n - 1]" f c wn] step by blast
  then have "create_main_array n sp mags phases lp wn = (Inr as, wn + c * n)
       \<and> antennas_ok wn c as \<and> int (length as) = n"
    unfolding create_main_array_def f_def using assms
    by (simp only: len Let_def simp_thms if_False)
  then show ?thesis
    unfolding c_def by blast
qed

lemma create_int_array_ok:
  assumes "int (length mags) = n" and "int (length phases) = n"
  shows "\<exists>as. create_int_array n sp ix iy iz mags phases lp wn
               = (Inr as, wn + (if lp then 10 else 7) * n)
             \<and> antennas_ok wn (if lp then 10 else 7) as \<and> int (length as) = n"
proof -
  define c :: int where "c = (if lp then 10 else 7)"
  define f :: "int \<Rightarrow> antenna py" where "f = (\<lambda>antenna.
           py_bind (py_lift (py_index phases antenna)) (\<lambda>phase.
           py_bind (py_lift (py_index mags antenna)) (\<lambda>magnitude.
           let real_cur = magnitude * cos (phase * pi / 180);
               imag_cur = magnitude * sin (phase * pi / 180);
               x_position = of_int antenna * sp - (of_int (n - 1) * sp) / 2;
               global_x_position = x_position + ix
           in if lp then
                py_bind (LogPeriodic_init 15 global_x_position iy iz real_cur imag_cur)
                  (\<lambda>l. py_return (A_LogPeriodic l))
              else
                py_bind (TTFD_init 13 10 100 12 8 1.5 global_x_position iy iz
                           real_cur imag_cur)
                  (\<lambda>t. py_return (A_TTFD t)))))"
  have step: "\<exists>a. f x wn = (Inr a, wn + c) \<and> antenna_ok wn c a"
    if "x \<in> set [0..n - 1]" for x wn
  proof -
    have x: "0 \<le> x" "x < n"
      using that by simp_all
    have i: "py_index phases x = Inr (phases ! nat x)" "py_index mags x = Inr (mags ! nat x)"
      using x assms by (simp_all add: py_index_ok)
    show ?thesis
    proof (cases lp)
      case True
      obtain l where "LogPeriodic_init 15
            (of_int x * sp - (of_int (n - 1) * sp) / 2 + ix) iy iz
            (mags ! nat x * cos (phases ! nat x * pi / 180))
            (mags ! nat x * sin (phases ! nat x * pi / 180)) wn = (Inr l, wn + 10)"
          "antenna_ok wn 10 (A_LogPeriodic l)"
        using LogPeriodic_init_ok by blast
      then have "f x wn = (Inr (A_LogPeriodic l), wn + c) \<and> antenna_ok wn c (A_LogPeriodic l)"
        unfolding f_def c_def using True
        by (simp only: py_bind_def py_lift_def py_return_def Let_def i prod.case sum.case
              if_True simp_thms)
      then show ?thesis
        by blast
    next
      case False
      obtain t where "TTFD_init 13 10 100 12 8 1.5
            (of_int x * sp - (of_int (n - 1) * sp) / 2 + ix) iy iz
            (mags ! nat x * cos (phases ! nat x * pi / 180))
            (mags ! nat x * sin (phases ! nat x * pi / 180)) wn = (Inr t, wn + 7)"
          "antenna_ok wn 7 (A_TTFD t)"
        using TTFD_init_ok by blast
      then have "f x wn = (Inr (A_TTFD t), wn + c) \<and> antenna_ok wn c (A_TTFD t)"
        unfolding f_def c_def using False
        by (simp only: py_bind_def py_lift_def py_return_def Let_def i prod.case sum.case
              if_False simp_thms)
      then show ?thesis
        by blast
    qed
  qed
  have "0 \<le> n"
    using assms(1) by simp
  then have len: "int (length [0..n - 1]) = n"
    by simp
  obtain as where "py_for [0..n - 1] f wn = (Inr as, wn + c * int (length [0..n - 1]))"
      "antennas_ok wn c as" "length as = length [0..n - 1]"
    using py_for_antennas [of "[0..n - 1]" f c wn] step by blast
  then have "create_int_array n sp ix iy iz mags phases lp wn = (Inr as, wn + c * n)
       \<and> antennas_ok wn c as \<and> int (length as) = n"
    unfolding create_int_array_def f_def using assms
    by (simp only: len Let_def simp_thms if_False)
  then show ?thesis
    unfolding c_def by blast
qed

lemma Reflector_init_ok:
  "\<exists>ws. Reflector_init len sp sh 21 13 ang gx gy gz wn = (Inr ws, wn + 21)
        \<and> gw_ids (repr_Reflector ws) = [wn + 1..wn + 21]
        \<and> ld5_tags (repr_Reflector ws) = []"
proof -
  define rmm :: real where "rmm = 0.127 * (92 powr (of_int (36 - 13) / of_int 39))"
  have r: "get_mm_radius_from_awg 13 = Inr rmm"
    unfolding rmm_def get_mm_radius_from_awg_def by simp
  define f :: "int \<Rightarrow> wire py" where "f = (\<lambda>reflector_wire.
           let ax = - len / 2;
               bx = len / 2;
               y = - of_int reflector_wire * cos (ang * pi / 180) * sp;
               z = of_int reflector_wire * sin (ang * pi / 180) * sp
           in Wire_init (ax + gx) (y + gy) (sh - z + gz)
                        (bx + gx) (y + gy) (sh - z + gz)
                        (rmm / 1000) 0)"
  have step: "\<exists>w. f x wn = (Inr w, wn + 1) \<and> wire_number w = wn + 1" for x wn
    unfolding f_def Let_def using Wire_init_ok by blast
  have len: "int (length [0..(21::int) - 1]) = 21"
    by simp
  obtain ws where ws: "py_for [0..21 - 1] f wn = (Inr ws, wn + int (length [0..(21::int) - 1]))"
      "map wire_number ws = [wn + 1..wn + int (length [0..(21::int) - 1])]"
    using py_for_wires [of f "[0..21 - 1]" wn] step by blast
  have "Reflector_init len sp sh 21 13 ang gx gy gz wn = (Inr ws, wn + 21)"
    unfolding Reflector_init_def using ws(1)
    by (simp only: py_bind_def py_lift_def r prod.case sum.case Let_def f_def len) simp
  moreover have "gw_ids (repr_Reflector ws) = [wn + 1..wn + 21]"
    using ws(2) by (simp only: repr_Reflector_def gw_ids_repr_wire len)
  moreover have "ld5_tags (repr_Reflector ws) = []"
    by (simp only: repr_Reflector_def ld5_tags_repr_wire)
  ultimately show ?thesis
    by blast
qed

lemma ld5_tags_map_LD5: "ld5_tags (map (\<lambda>w. LD5 w s e c) xs) = xs"
  by (induction xs) simp_all

lemma gw_ids_map_LD5: "gw_ids (map (\<lambda>w. LD5 w s e c) xs) = []"
  by (induction xs) simp_all

lemma ld5_tags_conductivity: "ld5_tags (conductivity_cards lp n) = [0..n - 1]"
  by (cases lp)
    (simp_all add: conductivity_cards_def create_wire_conductivity_def ld5_tags_map_LD5)

lemma gw_ids_conductivity: "gw_ids (conductivity_cards lp n) = []"
  by (cases lp)
    (simp_all add: conductivity_cards_def create_wire_conductivity_def gw_ids_map_LD5)

lemma write_deck_ok:
  assumes am: "int (length am) = antennas a" and ap: "int (length ap) = antennas a"
      and im: "0 < int_antennas a \<Longrightarrow> int (length im) = int_antennas a"
      and ip: "0 < int_antennas a \<Longrightarrow> int (length ip) = int_antennas a"
  shows "\<exists>deck. write_deck a am ap im ip wn = (Inr deck, wn + wire_total a)
            \<and> gw_ids deck = [wn + 1..wn + wire_total a]
            \<and> ld5_tags deck = [0..wn + wire_total a - 1]"
proof -
  define c :: int where "c = (if log_periodic a then 10 else 7)"
  define n1 where "n1 = wn + c * antennas a"
  define n2 where "n2 = n1 + (if 0 < int_antennas a then c * int_antennas a else 0)"
  define n3 where "n3 = n2 + (if without_fence a then 0
                               else 21 + (if 0 < int_antennas a then 21 else 0))"
  have c0: "0 \<le> c"
    by (simp add: c_def)
  have a0: "0 \<le> antennas a"
    using am by simp
  have total: "n3 = wn + wire_total a"
    by (simp add: n3_def n2_def n1_def wire_total_def c_def)
  obtain ms where ms: "create_main_array (antennas a) (antenna_spacing a) am ap
        (log_periodic a) wn = (Inr ms, n1)" "antennas_ok wn c ms"
      "int (length ms) = antennas a"
    unfolding n1_def c_def using create_main_array_ok [OF am ap] by blast
  have g1: "gw_ids (concat (map repr_geometry ms)) = [wn + 1..n1]"
      "ld5_tags (concat (map repr_geometry ms)) = []"
    using antennas_ok_geometry [OF ms(2) c0] ms(3) by (simp_all add: n1_def)
  note o1 = antennas_ok_others [OF ms(2)]
  have "\<exists>ias. (if 0 < int_antennas a then
                create_int_array (int_antennas a) (antenna_spacing a) (int_x_spacing a)
                  (int_y_spacing a) (int_z_spacing a) im ip (log_periodic a)
              else py_return []) n1 = (Inr ias, n2)
            \<and> antennas_ok n1 c ias
            \<and> gw_ids (concat (map repr_geometry ias)) = [n1 + 1..n2]
            \<and> ld5_tags (concat (map repr_geometry ias)) = []"
  proof (cases "0 < int_antennas a")
    case True
    obtain ias where ias: "create_int_array (int_antennas a) (antenna_spacing a)
          (int_x_spacing a) (int_y_spacing a) (int_z_spacing a) im ip (log_periodic a) n1
          = (Inr ias, n1 + c * int_antennas a)" "antennas_ok n1 c ias"
        "int (length ias) = int_antennas a"
      unfolding c_def using create_int_array_ok [OF im [OF True] ip [OF True]] by blast
    have "gw_ids (concat (map repr_geometry ias)) = [n1 + 1..n1 + c * int_antennas a]"
        "ld5_tags (concat (map repr_geometry ias)) = []"
      using antennas_ok_geometry [OF ias(2) c0] ias(3) by simp_all
    then show ?thesis
      using True ias by (simp add: n2_def)
  next
    case False
    then show ?thesis
      by (simp add: n2_def py_return_def)
  qed
  then obtain ias where ias: "(if 0 < int_antennas a then
                create_int_array (int_antennas a) (antenna_spacing a) (int_x_spacing a)
                  (int_y_spacing a) (int_z_spacing a) im ip (log_periodic a)
              else py_return []) n1 = (Inr ias, n2)"
      "antennas_ok n1 c ias"
      "gw_ids (concat (map repr_geometry ias)) = [n1 + 1..n2]"
      "ld5_tags (concat (map repr_geometry ias)) = []"
    by blast
  note o2 = antennas_ok_others [OF ias(2)]
  have "\<exists>fc. (if \<not> without_fence a then
                py_bind (Reflector_init (of_int (antennas a + 1) * antenna_spacing a) 0.707
                           15 21 13 45 0 0 0) (\<lambda>fence.
                py_bind (if 0 < int_antennas a then
                           Reflector_init (of_int (int_antennas a + 1) * antenna_spacing a)
                             0.707 15 21 13 45 (int_x_spacing a) (int_y_spacing a)
                             (int_z_spacing a)
                         else py_return []) (\<lambda>int_fence.
                py_return (repr_Reflector fence @ repr_Reflector int_fence)))
              else py_return []) n2 = (Inr fc, n3)
            \<and> gw_ids fc = [n2 + 1..n3] \<and> ld5_tags fc = []"
  proof (cases "without_fence a")
    case True
    then show ?thesis
      by (simp add: n3_def py_return_def)
  next
    case False
    obtain f1 where f1: "Reflector_init (of_int (antennas a + 1) * antenna_spacing a) 0.707
          15 21 13 45 0 0 0 n2 = (Inr f1, n2 + 21)"
        "gw_ids (repr_Reflector f1) = [n2 + 1..n2 + 21]" "ld5_tags (repr_Reflector f1) = []"
      using Reflector_init_ok by blast
    show ?thesis
    proof (cases "0 < int_antennas a")
      case True
      obtain f2 where f2: "Reflector_init (of_int (int_antennas a + 1) * antenna_spacing a)
            0.707 15 21 13 45 (int_x_spacing a) (int_y_spacing a) (int_z_spacing a) (n2 + 21)
            = (Inr f2, n2 + 21 + 21)"
          "gw_ids (repr_Reflector f2) = [n2 + 21 + 1..n2 + 21 + 21]"
          "ld5_tags (repr_Reflector f2) = []"
        using Reflector_init_ok by blast
      have app: "[n2 + 1..n2 + 21] @ [n2 + 21 + 1..n2 + 21 + 21] = [n2 + 1..n2 + 21 + 21]"
        by (intro upto_append) simp_all
      have n3: "n3 = n2 + 21 + 21"
        using False True by (simp add: n3_def)
      have "(if \<not> without_fence a then
                py_bind (Reflector_init (of_int (antennas a + 1) * antenna_spacing a) 0.707
                           15 21 13 45 0 0 0) (\<lambda>fence.
                py_bind (if 0 < int_antennas a then
                           Reflector_init (of_int (int_antennas a + 1) * antenna_spacing a)
                             0.707 15 21 13 45 (int_x_spacing a) (int_y_spacing a)
                             (int_z_spacing a)
                         else py_return []) (\<lambda>int_fence.
                py_return (repr_Reflector fence @ repr_Reflector int_fence)))
              else py_return []) n2 = (Inr (repr_Reflector f1 @ repr_Reflector f2), n3)"
        unfolding n3 using False True
        by (simp only: py_bind_def py_return_def f1(1) f2(1) prod.case sum.case if_True
              if_False simp_thms)
      moreover have "gw_ids (repr_Reflector f1 @ repr_Reflector f2) = [n2 + 1..n3]"
        unfolding n3 by (simp only: gw_ids_append f1(2) f2(2) app)
      moreover have "ld5_tags (repr_Reflector f1 @ repr_Reflector f2) = []"
        by (simp only: ld5_tags_append f1(3) f2(3) append_Nil)
      ultimately show ?thesis
        by blast
    next
      case F: False
      have n3: "n3 = n2 + 21"
        using False F by (simp add: n3_def)
      have "(if \<not> without_fence a then
                py_bind (Reflector_init (of_int (antennas a + 1) * antenna_spacing a) 0.707
                           15 21 13 45 0 0 0) (\<lambda>fence.
                py_bind (if 0 < int_antennas a then
                           Reflector_init (of_int (int_antennas a + 1) * antenna_spacing a)
                             0.707 15 21 13 45 (int_x_spacing a) (int_y_spacing a)
                             (int_z_spacing a)
                         else py_return []) (\<lambda>int_fence.
                py_return (repr_Reflector fence @ repr_Reflector int_fence)))
              else py_return []) n2 = (Inr (repr_Reflector f1 @ repr_Reflector []), n3)"
        unfolding n3 using False F
        by (simp only: py_bind_def py_return_def f1(1) prod.case sum.case if_True
              if_False simp_thms)
      moreover have "gw_ids (repr_Reflector f1 @ repr_Reflector []) = [n2 + 1..n3]"
        unfolding n3 by (simp add: gw_ids_append f1(2) repr_Reflector_def [of "[]"])
      moreover have "ld5_tags (repr_Reflector f1 @ repr_Reflector []) = []"
        by (simp add: ld5_tags_append f1(3) repr_Reflector_def [of "[]"])
      ultimately show ?thesis
        by blast
    qed
  qed
  then obtain fc where fc: "(if \<not> without_fence a then
                py_bind (Reflector_init (of_int (antennas a + 1) * antenna_spacing a) 0.707
                           15 21 13 45 0 0 0) (\<lambda>fence.
                py_bind (if 0 < int_antennas a then
                           Reflector_init (of_int (int_antennas a + 1) * antenna_spacing a)
                             0.707 15 21 13 45 (int_x_spacing a) (int_y_spacing a)
                             (int_z_spacing a)
                         else py_return []) (\<lambda>int_fence.
                py_return (repr_Reflector fence @ repr_Reflector int_fence)))
              else py_return []) n2 = (Inr fc, n3)"
      "gw_ids fc = [n2 + 1..n3]" "ld5_tags fc = []"
    by blast
  have le: "wn \<le> n1" "n1 \<le> n2" "n2 \<le> n3"
    using c0 a0 by (simp_all add: n1_def n2_def n3_def)
  have ge: "(case end_geometry 1 of None \<Rightarrow> Inl TypeError | Some c \<Rightarrow> Inr c) = Inr (GE 1)"
    by (simp add: end_geometry_def)
  define deck where "deck =
        concat (map repr_geometry ms)
        @ concat (map repr_geometry ias)
        @ fc
        @ [GE 1]
        @ conductivity_cards (log_periodic a) n3
        @ concat (map repr_loads ms)
        @ concat (map repr_loads ias)
        @ [ground_card 2 13 0.005, extended_kernel_card, max_coupling_card]
        @ concat (map (\<lambda>m_ant. repr_excitations m_ant @ repr_transmissionlines m_ant
                                @ repr_comment_string m_ant) ms)
        @ concat (map (\<lambda>i_ant. repr_excitations i_ant @ repr_transmissionlines i_ant) ias)
        @ [frequency_card 1 (frequency a) 0.5, radiation_pattern_card 0 1 90 0 1 361,
           end_of_run_card]"
  have run: "write_deck a am ap im ip wn = (Inr deck, n3)"
    unfolding write_deck_def deck_def
    by (simp only: py_bind_def py_lift_def py_return_def py_get_def ms(1) ias(1) fc(1) ge
          prod.case sum.case)
  have "[wn + 1..n1] @ [n1 + 1..n2] = [wn + 1..n2]"
    using le by (intro upto_append) simp_all
  moreover have "[wn + 1..n2] @ [n2 + 1..n3] = [wn + 1..n3]"
    using le by (intro upto_append) simp_all
  ultimately have ids: "[wn + 1..n1] @ [n1 + 1..n2] @ [n2 + 1..n3] = [wn + 1..n3]"
    by (simp only: append_assoc [symmetric])
  have gw: "gw_ids deck = [wn + 1..n3]"
    unfolding deck_def using o1 o2 ids
    by (simp add: gw_ids_append g1 ias(3) fc(2) gw_ids_conductivity no_ids_def
          ground_card_def extended_kernel_card_def max_coupling_card_def frequency_card_def
          radiation_pattern_card_def end_of_run_card_def)
  have ld: "ld5_tags deck = [0..n3 - 1]"
    unfolding deck_def using o1 o2
    by (simp add: ld5_tags_append g1 ias(4) fc(3) ld5_tags_conductivity no_ids_def
          ground_card_def extended_kernel_card_def max_coupling_card_def frequency_card_def
          radiation_pattern_card_def end_of_run_card_def)
  show ?thesis
    using run gw ld unfolding total by blast
qed

lemma beam_dispatch_ok:
  assumes "py_is_zero (beam a) \<or> frequency a \<noteq> 0"
  shows "\<exists>rel_phase. beam_dispatch a = Inr rel_phase"
proof (cases "py_is_zero (beam a)")
  case True
  then show ?thesis
    by (simp add: beam_dispatch_def)
next
  case False
  then have "frequency a * 1000000 \<noteq> 0"
    using assms by simp
  then show ?thesis
    using False calculate_phase_from_beam_eq [of "frequency a * 1000000"]
    by (simp add: beam_dispatch_def)
qed

lemma run_ok:
  assumes "\<not> circular_phase a" and "\<not> parabolic_phase a" and "\<not> broadened_beam a"
      and "py_is_zero (beam a) \<or> frequency a \<noteq> 0"
      and "0 \<le> antennas a"
  shows "\<exists>deck. run a = (Inr deck, wire_total a)
            \<and> gw_ids deck = [1..wire_total a]
            \<and> ld5_tags deck = [0..wire_total a - 1]"
proof -
  obtain rel_phase where b: "beam_dispatch a = Inr rel_phase"
    using beam_dispatch_ok [OF assms(4)] by blast
  define am :: "real list" where "am = map (\<lambda>m_ant. 1) [0..antennas a - 1]"
  define ap where "ap = map (\<lambda>m_ant. rel_phase * of_int m_ant) [0..antennas a - 1]"
  define im :: "real list" where "im = map (\<lambda>i_ant. 0) [0..int_antennas a - 1]"
  define ip where "ip = map (\<lambda>i_ant. rel_phase * of_int i_ant) [0..int_antennas a - 1]"
  have p: "phase_lists a rel_phase = Inr (am, ap, im, ip)"
    unfolding phase_lists_def am_def ap_def im_def ip_def
    using assms(1-3) by (simp only: if_False)
  have l: "int (length am) = antennas a" "int (length ap) = antennas a"
    using assms(5) by (simp_all add: am_def ap_def)
  have li: "int (length im) = int_antennas a" "int (length ip) = int_antennas a"
    if "0 < int_antennas a"
    using that by (simp_all add: im_def ip_def)
  have "run a = write_deck a am ap im ip 0"
    unfolding run_def main_def
    by (simp only: py_bind_def py_lift_def b p prod.case sum.case)
  then show ?thesis
    using write_deck_ok [of am a ap im ip 0, OF l li] by simp
qed

section \<open>Segment count of a wire\<close>








lemma auto_segments_zero: "auto_segments min_frequency 0 = Inr 1"
  using auto_segments_eq [of min_frequency 0]
  by (simp add: min_frequency_def fdiv_def)

text \<open>
  C3 (as the code behaves). A wire whose two end points coincide has length 0;
  \<open>Wire.__init__\<close> with automatic segmentation raises nothing for it: it takes the next
  identifier and returns a wire of one segment. (The length is a square root, so it is
  never negative.)
\<close>

theorem Wire_init_degenerate_one_segment:
  "Wire_init ax ay az ax ay az r 0 wn =
     (Inr \<lparr>wire_number = wn + 1, segments = 1, x1 = ax, y1 = ay, z1 = az,
           x2 = ax, y2 = ay, z2 = az, radius = r\<rparr>, wn + 1)"
  by (simp add: Wire_init_def wire_length_same auto_segments_zero Let_def)

text \<open>
  No exception at a concrete degenerate input: the first wire of a run, built with both
  end points at the origin and the default radius, is constructed.
\<close>

theorem Wire_init_degenerate_counterexample:
  "Wire_init 0 0 0 0 0 0 0.000127 0 0 =
     (Inr \<lparr>wire_number = 1, segments = 1, x1 = 0, y1 = 0, z1 = 0,
           x2 = 0, y2 = 0, z2 = 0, radius = 0.000127\<rparr>, 1)"
  by (simp add: Wire_init_def wire_length_same auto_segments_zero Let_def)

section \<open>Middle segment\<close>

text \<open>
  \<open>segments / 2\<close> is a float. Beyond 2^53 it is no longer exact: at 2^54 + 3 segments
  it is 2^53 + 2 and the result is 2^53 + 3, one more than 1 + floor(s / 2).
\<close>

lemma get_mid_segment_rounds:
  "get_mid_segment \<lparr>wire_number = 1, segments = 2 ^ 54 + 3, x1 = 0, y1 = 0, z1 = 0,
      x2 = 1, y2 = 0, z2 = 0, radius = 0.000127\<rparr> = Inr 9007199254740995"
proof -
  have "fl (18014398509481987 / 2) = of_int 4503599627370497 * 2 powr of_int 1"
    by (rule fl_eqI) simp_all
  then have f: "fdiv (of_int (2 ^ 54 + 3)) (of_int 2) = 9007199254740994"
    by (simp add: fdiv_def)
  have "py_int_truediv (2 ^ 54 + 3) 2 = Inr 9007199254740994"
    unfolding py_int_truediv_def f by simp
  then show ?thesis
    by (simp add: get_mid_segment_def py_int_def)
qed

text \<open>
  An odd count whose half is beyond the largest float: the division raises OverflowError,
  so an error is raised although the count is odd.
\<close>

lemma get_mid_segment_overflow:
  "get_mid_segment \<lparr>wire_number = 1, segments = 2 ^ 1025 + 1, x1 = 0, y1 = 0, z1 = 0,
      x2 = 1, y2 = 0, z2 = 0, radius = 0.000127\<rparr> = Inl OverflowError"
proof -
  have "fl (of_int 1 * 2 powr of_int 1024) = of_int 1 * 2 powr of_int 1024"
    by (rule fl_exact) simp
  moreover have "(2::real) powr of_int 1024 = 2 ^ 1024"
    using powr_realpow [of 2 1024] by simp
  ultimately have e: "fl (2 ^ 1024) = 2 ^ 1024"
    by simp
  have "fl (2 ^ 1024) \<le> fl ((2 ^ 1025 + 1) / 2)"
    by (rule fl_mono_nonneg) simp_all
  then have "2 ^ 1024 \<le> fdiv (of_int (2 ^ 1025 + 1)) (of_int 2)"
    unfolding e by (simp add: fdiv_def)
  then have "2 ^ 1024 \<le> \<bar>fdiv (of_int (2 ^ 1025 + 1)) (of_int 2)\<bar>"
    by linarith
  then have "py_int_truediv (2 ^ 1025 + 1) 2 = Inl OverflowError"
    unfolding py_int_truediv_def by (simp only: if_True) simp
  moreover have "odd ((2::int) ^ 1025 + 1)"
    by simp
  ultimately show ?thesis
    by (simp add: get_mid_segment_def even_iff_mod_2_eq_zero)
qed

text \<open>
  C10 (as the code behaves). A wire may be given any segment count. With -3 segments
  the result is 0, since \<open>int\<close> truncates -1.5 to -1, and not 1 + floor(-1.5) = -1;
  0 is not a segment of the wire.
\<close>

theorem get_mid_segment_negative_counterexample:
  "Wire_init 0 0 0 1 0 0 0.000127 (- 3) 0 =
     (Inr \<lparr>wire_number = 1, segments = - 3, x1 = 0, y1 = 0, z1 = 0,
           x2 = 1, y2 = 0, z2 = 0, radius = 0.000127\<rparr>, 1)
   \<and> get_mid_segment \<lparr>wire_number = 1, segments = - 3, x1 = 0, y1 = 0, z1 = 0,
        x2 = 1, y2 = 0, z2 = 0, radius = 0.000127\<rparr> = Inr 0
   \<and> 1 + \<lfloor>of_int (- 3) / (2::real)\<rfloor> = - 1"
  using get_mid_segment_literal [of "- 3" 1 0 0 0 1 0 0 "0.000127"]
    Wire_init_explicit [of "- 3" 0 0 0 1 0 0 "0.000127" 0]
  by (simp add: py_int_def floor_half)

text \<open>
  C10 (amended). \<open>get_mid_segment\<close> raises ValueError exactly when the segment count is
  even, and for a count below 2^53 in absolute value it raises nothing else. For an odd
  count s that is positive and below 2^53 it returns 1 + floor(s / 2), which lies
  between 1 and s and has as many segments before it as after it.
\<close>

theorem get_mid_segment_odd_positive:
  "(get_mid_segment w = Inl ValueError \<longleftrightarrow> even (segments w))
   \<and> (\<bar>segments w\<bar> < 2 ^ 53 \<longrightarrow> (isl (get_mid_segment w) \<longleftrightarrow> even (segments w)))
   \<and> (odd (segments w) \<and> 0 < segments w \<and> segments w < 2 ^ 53 \<longrightarrow>
        get_mid_segment w = Inr (1 + \<lfloor>of_int (segments w) / (2::real)\<rfloor>)
        \<and> 1 \<le> 1 + \<lfloor>of_int (segments w) / (2::real)\<rfloor>
        \<and> 1 + \<lfloor>of_int (segments w) / (2::real)\<rfloor> \<le> segments w
        \<and> (1 + \<lfloor>of_int (segments w) / (2::real)\<rfloor>) - 1
            = segments w - (1 + \<lfloor>of_int (segments w) / (2::real)\<rfloor>))"
proof -
  have a: "get_mid_segment w = Inl ValueError \<longleftrightarrow> even (segments w)"
    by (simp add: get_mid_segment_def py_int_truediv_def even_iff_mod_2_eq_zero)
  have b: "isl (get_mid_segment w) \<longleftrightarrow> even (segments w)" if "\<bar>segments w\<bar> < 2 ^ 53"
  proof (cases "even (segments w)")
    case True
    then show ?thesis
      by (simp add: get_mid_segment_def even_iff_mod_2_eq_zero)
  next
    case False
    then show ?thesis
      using get_mid_segment_small [OF False that] by simp
  qed
  have c: "get_mid_segment w = Inr (1 + \<lfloor>of_int (segments w) / (2::real)\<rfloor>)"
    if "odd (segments w)" "0 < segments w" "segments w < 2 ^ 53"
  proof -
    have "\<bar>segments w\<bar> < 2 ^ 53"
      using that(2,3) by simp
    then show ?thesis
      using get_mid_segment_small [OF that(1)] py_int_half [OF that(2)]
      by (simp add: floor_half)
  qed
  have d: "1 \<le> 1 + segments w div 2 \<and> 1 + segments w div 2 \<le> segments w
        \<and> (1 + segments w div 2) - 1 = segments w - (1 + segments w div 2)"
    if "odd (segments w)" "0 < segments w"
    using that by presburger
  show ?thesis
    using a b c d by (simp only: floor_half) blast
qed

text \<open>
  The apex element of a log-periodic antenna has 13 segments and its middle segment
  is 7; a wire of 12 segments has none.
\<close>

theorem get_mid_segment_odd_positive_witness:
  "odd (13::int) \<and> (0::int) < 13 \<and> (13::int) < 2 ^ 53 \<and> \<bar>13::int\<bar> < 2 ^ 53
   \<and> get_mid_segment \<lparr>wire_number = 1, segments = 13, x1 = - 3.02, y1 = 0, z1 = 15,
        x2 = 3.02, y2 = 0, z2 = 15, radius = 0.01\<rparr> = Inr 7
   \<and> even (12::int) \<and> \<bar>12::int\<bar> < 2 ^ 53
   \<and> get_mid_segment \<lparr>wire_number = 1, segments = 12, x1 = - 3.02, y1 = 0, z1 = 15,
        x2 = 3.02, y2 = 0, z2 = 15, radius = 0.01\<rparr> = Inl ValueError"
  using
    get_mid_segment_odd_positive [of "\<lparr>wire_number = 1, segments = 13, x1 = - 3.02, y1 = 0,
      z1 = 15, x2 = 3.02, y2 = 0, z2 = 15, radius = 0.01\<rparr>"]
    get_mid_segment_odd_positive [of "\<lparr>wire_number = 1, segments = 12, x1 = - 3.02, y1 = 0,
      z1 = 15, x2 = 3.02, y2 = 0, z2 = 15, radius = 0.01\<rparr>"]
  by (simp add: floor_half)

section \<open>Excitations\<close>

text \<open>
  C8. A current source writes an EX 6 card in which a component that is exactly zero has
  become 1e-10 and any other component is the one given, so neither component of an
  EX 6 card is zero; a voltage source writes an EX 0 card with both components as given.
\<close>

theorem Source_init_nudges_zero_current:
  "Source_init tag segment re im True =
     EX6 tag segment (if re = 0 then 1 / 10 ^ 10 else re) (if im = 0 then 1 / 10 ^ 10 else im)
   \<and> (if re = 0 then 1 / 10 ^ 10 else re) \<noteq> 0
   \<and> (if im = 0 then 1 / 10 ^ 10 else im) \<noteq> 0
   \<and> Source_init tag segment re im False = EX0 tag segment re im"
  by (simp add: Source_init_def)

section \<open>Wire identifiers\<close>

text \<open>
  C4. Whatever wires a run constructs one after the other, and whatever the counter is
  when it starts, every construction succeeds and the identifiers handed out are the
  next integers in construction order: they are strictly increasing and no identifier
  occurs twice.
\<close>

theorem construct_wires_ids_increasing:
  "\<exists>ws. construct_wires as wn = (Inr ws, wn + int (length as))
        \<and> length ws = length as
        \<and> map get_wire_number ws = [wn + 1..wn + int (length as)]
        \<and> sorted_wrt (<) (map get_wire_number ws)
        \<and> distinct (map get_wire_number ws)"
proof -
  define f :: "wire_args \<Rightarrow> wire py"
    where "f = (\<lambda>(ax, ay, az, bx, by, bz, r, segs). Wire_init ax ay az bx by bz r segs)"
  have step: "\<exists>w. f x wn = (Inr w, wn + 1) \<and> wire_number w = wn + 1" for x wn
  proof -
    obtain ax ay az bx "by" bz r segs where x: "x = (ax, ay, az, bx, by, bz, r, segs)"
      by (cases x) auto
    show ?thesis
      unfolding x f_def using Wire_init_ok [of ax ay az bx "by" bz r segs wn] by auto
  qed
  obtain ws where ws: "py_for as f wn = (Inr ws, wn + int (length as))"
      "map wire_number ws = [wn + 1..wn + int (length as)]"
    using py_for_wires [of f as wn] step by blast
  have c: "construct_wires as wn = (Inr ws, wn + int (length as))"
    using ws(1) by (simp add: construct_wires_def f_def)
  have g: "map get_wire_number ws = map wire_number ws"
    by (simp add: get_wire_number_def)
  have "length (map wire_number ws) = length as"
    unfolding ws(2) by simp
  then have "length ws = length as"
    by simp
  then show ?thesis
    using c ws(2) g by simp
qed

section \<open>Array assembly\<close>

text \<open>
  C5. When the list of magnitudes or the list of phases does not have \<open>num_antennas\<close>
  entries, \<open>create_main_array\<close> and \<open>create_int_array\<close> raise ValueError (the
  configuration error of this module) and the wire counter is what it was before the
  call: no wire has been constructed.
\<close>

theorem create_array_length_mismatch:
  assumes "int (length mags) \<noteq> n \<or> int (length phases) \<noteq> n"
  shows "create_main_array n sp mags phases lp wn = (Inl ValueError, wn)
       \<and> create_int_array n sp ix iy iz mags phases lp wn = (Inl ValueError, wn)"
  using assms by (auto simp add: create_main_array_def create_int_array_def py_raise_def)

theorem create_array_length_mismatch_witness:
  "int (length [1::real, 1]) \<noteq> 16
   \<and> create_main_array 16 15.24 [1, 1] [0, 0] False 0 = (Inl ValueError, 0)
   \<and> create_int_array 16 15.24 0 (- 100) 0 [1, 1] [0, 0] False 0 = (Inl ValueError, 0)"
  using create_array_length_mismatch [of "[1, 1]" 16 "[0, 0]" "15.24" False 0 0 "- 100" 0]
  by simp

section \<open>Beam steering\<close>

text \<open>
  C6. For a beam number b, a frequency f other than 0 (the wavelength c / f is computed
  first, and Python raises ZeroDivisionError for f = 0) and a spacing d,
  \<open>calculate_phase_from_beam\<close> returns 360 * d * sin(azimuth) / (c / f), the sine being
  that of the azimuth (b - 16/2 + 0.5) * 3.24 degrees.
\<close>

theorem calculate_phase_from_beam_formula:
  assumes "f \<noteq> 0"
  shows "calculate_phase_from_beam b f d =
         Inr (360 * d * sin (((b - 16 / 2 + 0.5) * 3.24) * pi / 180) / (speed_of_light / f))"
  using assms by (rule calculate_phase_from_beam_eq)

theorem calculate_phase_from_beam_formula_witness:
  "(10500000::real) \<noteq> 0
   \<and> calculate_phase_from_beam 8 10500000 15.24 =
       Inr (360 * 15.24 * sin (((8 - 16 / 2 + 0.5) * 3.24) * pi / 180)
            / (speed_of_light / 10500000))"
  using calculate_phase_from_beam_formula [of 10500000 8 "15.24"]
  by simp

text \<open>
  The script skips the steering formula when \<open>args.beam is not 0\<close> is false. That is so
  when the option is absent, since the default is the int \<open>0\<close>.
\<close>

lemma beam_dispatch_absent: "beam_dispatch (a\<lparr>beam := PyInt 0\<rparr>) = Inr 0"
  by (simp add: beam_dispatch_def py_is_zero_def)

text \<open>
  C7. With \<open>-b 0\<close> on the command line \<open>args.beam\<close> is the float \<open>0.0\<close>, which is not
  the int object \<open>0\<close>: the formula is applied to beam number 0 and, at the default
  frequency and spacing, the relative phase is negative, not 0.
\<close>

theorem beam_dispatch_float_zero_steers:
  "beam_dispatch (default_args\<lparr>beam := PyFloat 0\<rparr>) =
     Inr (360 * 15.24 * sin (((0 - 16 / 2 + 0.5) * 3.24) * pi / 180)
          / (speed_of_light / (10.5 * 1000000)))
   \<and> 360 * 15.24 * sin (((0 - 16 / 2 + 0.5) * 3.24) * pi / 180)
          / (speed_of_light / (10.5 * 1000000)) < (0::real)"
proof -
  have e: "beam_dispatch (default_args\<lparr>beam := PyFloat 0\<rparr>) =
     calculate_phase_from_beam 0 (10.5 * 1000000) 15.24"
    by (simp add: beam_dispatch_def default_args_def py_is_zero_def py_value_def)
  have f: "calculate_phase_from_beam 0 (10.5 * 1000000) 15.24 =
     Inr (360 * 15.24 * sin (((0 - 16 / 2 + 0.5) * 3.24) * pi / 180)
          / (speed_of_light / (10.5 * 1000000)))"
    by (rule calculate_phase_from_beam_eq) simp
  have "0 < speed_of_light / (10.5 * 1000000)"
    by (simp add: speed_of_light_def)
  moreover have "360 * 15.24 * sin (((0 - 16 / 2 + 0.5) * 3.24) * pi / 180) < (0::real)"
    using sin_beam_zero_neg by (simp add: mult_pos_neg)
  ultimately have "360 * 15.24 * sin (((0 - 16 / 2 + 0.5) * 3.24) * pi / 180)
          / (speed_of_light / (10.5 * 1000000)) < (0::real)"
    by (rule divide_neg_pos[rotated])
  then show ?thesis
    using e f by simp
qed

section \<open>Broadened beam\<close>

text \<open>
  \<open>num_sub_arrays / 2\<close> is a float in Python 3 and \<open>range\<close> refuses it, so the first
  statement of \<open>calculate_broadened_phase\<close> raises TypeError whatever the arguments are,
  also for the sixteen antennas in four sub-arrays of the script's defaults.
\<close>

lemma calculate_broadened_phase_always_TypeError:
  "calculate_broadened_phase f d n m = Inl TypeError"
  by (simp add: calculate_broadened_phase_def py_range_def)

text \<open>
  The arc cosine is not what stops eighteen antennas in four sub-arrays: at 10.5 MHz
  and 15.24 m both passes of the first loop have an argument within [-1, 1].
\<close>

lemma sub_array_azimuth_18_4:
  "\<not> isl (sub_array_azimuth (10.5 * 1000000) 15.24 18 4 0)"
  "\<not> isl (sub_array_azimuth (10.5 * 1000000) 15.24 18 4 1)"
  by (simp_all add: sub_array_azimuth_def py_truediv_def speed_of_light_def)

text \<open>
  A list of sixteen phases for eighteen antennas, which is what two sub-array halves of
  \<open>18 // 4\<close> elements each and their mirror image come to, is refused by the array
  assembly with ValueError before a wire is built.
\<close>

lemma create_main_array_short_phases:
  "length phases = 16 \<Longrightarrow>
     create_main_array 18 sp (map (\<lambda>m_ant. 1) [0..18 - 1]) phases lp wn = (Inl ValueError, wn)"
  by (simp add: create_main_array_def py_raise_def)


section \<open>The conductivity section of the deck\<close>

text \<open>
  C1. The run with no option on the command line (16 main and 4 interferometer TTFD
  antennas, two reflector fences) constructs 182 wires with the identifiers 1 to 182,
  and its conductivity section is the LD 5 cards of the tags 0 to 181 in ascending
  order: the loop runs over \<open>range(0, wire_number)\<close>, so wire 182 has no
  conductivity card and tag 0, which no wire has, gets one.
\<close>

theorem default_run_conductivity_off_by_one:
  "\<exists>deck. run default_args = (Inr deck, 182)
        \<and> gw_ids deck = [1..182]
        \<and> ld5_tags deck = [0..181]
        \<and> 182 \<notin> set (ld5_tags deck) \<and> 0 \<in> set (ld5_tags deck)"
proof -
  have t: "wire_total default_args = 182"
    by (simp add: wire_total_def default_args_def)
  obtain deck where d: "run default_args = (Inr deck, wire_total default_args)"
      "gw_ids deck = [1..wire_total default_args]"
      "ld5_tags deck = [0..wire_total default_args - 1]"
    using run_ok [of default_args] by (auto simp add: default_args_def py_is_zero_def)
  have "182 \<notin> set (ld5_tags deck)" "0 \<in> set (ld5_tags deck)"
    unfolding d(3) t by simp_all
  then show ?thesis
    using d unfolding t by auto
qed

end
